theory Spec2Isabelle
  imports Main
begin

section \<open>Data model (shared/schema.ts)\<close>

text \<open>
  The rows of the four tables, with the column types of the schema: a \<open>text\<close> or
  \<open>varchar\<close> column is a \<open>string\<close>, a column without \<open>notNull()\<close> is an option
  (\<open>None\<close> is SQL NULL, JavaScript \<open>null\<close> or \<open>undefined\<close>), a timestamp is a number
  of milliseconds since the epoch, and a \<open>jsonb\<close> column is a small JSON value.
  Field names carry the name of their record, since the four tables share column names.
\<close>

datatype json =
    JNull
  | JBool bool
  | JNum int
  | JStr string
  | JObj "(string \<times> json) list"

record Student =
  Student_id :: string
  Student_studentId :: string
  Student_name :: string
  Student_rollNumber :: string
  Student_department :: string
  Student_year :: string
  Student_division :: string
  Student_contactNumber :: string
  Student_photoUrl :: "string option"
  Student_isActive :: "bool option"
  Student_createdAt :: "nat option"

record Vehicle =
  Vehicle_id :: string
  Vehicle_studentId :: string
  Vehicle_plateNumber :: string
  Vehicle_vehicleType :: string
  Vehicle_model :: "string option"
  Vehicle_color :: "string option"
  Vehicle_isActive :: "bool option"
  Vehicle_createdAt :: "nat option"

text \<open>\<open>StudentWithVehicle = Student & { vehicle?: Vehicle }\<close>\<close>

record StudentWithVehicle = Student +
  vehicle :: "Vehicle option"

text \<open>
  The handlers do not validate \<open>gateLocation\<close> on every path, so the value that reaches
  the store may be \<open>undefined\<close> although the column is declared \<open>notNull()\<close>: the field
  is an option here.
\<close>

record AccessLog =
  AccessLog_id :: string
  AccessLog_studentId :: "string option"
  AccessLog_vehicleId :: "string option"
  AccessLog_plateNumber :: "string option"
  AccessLog_gateLocation :: "string option"
  AccessLog_accessStatus :: string
  AccessLog_reason :: "string option"
  AccessLog_timestamp :: "nat option"
  AccessLog_metadata :: json

record Alert =
  Alert_id :: string
  Alert_type :: string
  Alert_severity :: string
  Alert_title :: string
  Alert_description :: string
  Alert_gateLocation :: "string option"
  Alert_metadata :: json
  Alert_isRead :: "bool option"
  Alert_createdAt :: "nat option"

text \<open>
  The insert types omit the generated columns. \<open>metadata\<close> is an optional key of the
  insert object: \<open>None\<close> is the key left out.
\<close>

record InsertAccessLog =
  InsertAccessLog_studentId :: "string option"
  InsertAccessLog_vehicleId :: "string option"
  InsertAccessLog_plateNumber :: "string option"
  InsertAccessLog_gateLocation :: "string option"
  InsertAccessLog_accessStatus :: string
  InsertAccessLog_reason :: "string option"
  InsertAccessLog_metadata :: "json option"

record InsertAlert =
  InsertAlert_type :: string
  InsertAlert_severity :: string
  InsertAlert_title :: string
  InsertAlert_description :: string
  InsertAlert_gateLocation :: "string option"
  InsertAlert_metadata :: "json option"
  InsertAlert_isRead :: "bool option option"

text \<open>The result of \<open>verifyStudentAndVehicle\<close>; \<open>reason\<close> is an optional key.\<close>

record Verification =
  Verification_student :: "StudentWithVehicle option"
  Verification_vehicle :: "Vehicle option"
  Verification_isValid :: bool
  Verification_reason :: "string option"

text \<open>
  \<open>!x\<close> on a nullable boolean column: \<open>null\<close> and \<open>false\<close> are both falsy, so only
  \<open>Some True\<close> counts as active.
\<close>

definition truthy_flag :: "bool option \<Rightarrow> bool" where
  "truthy_flag b = (case b of None \<Rightarrow> False | Some x \<Rightarrow> x)"

text \<open>\<open>{ ...student, vehicle }\<close>\<close>

definition spread_vehicle :: "Student \<Rightarrow> Vehicle option \<Rightarrow> StudentWithVehicle" where
  "spread_vehicle s v =
     \<lparr> Student_id = Student_id s,
       Student_studentId = Student_studentId s,
       Student_name = Student_name s,
       Student_rollNumber = Student_rollNumber s,
       Student_department = Student_department s,
       Student_year = Student_year s,
       Student_division = Student_division s,
       Student_contactNumber = Student_contactNumber s,
       Student_photoUrl = Student_photoUrl s,
       Student_isActive = Student_isActive s,
       Student_createdAt = Student_createdAt s,
       vehicle = v \<rparr>"

section \<open>The in-memory store (class MemoryStorage)\<close>

text \<open>
  A JavaScript \<open>Map\<close> keeps its entries in insertion order, and \<open>set\<close> on a key that is
  present replaces the value where it stands: an association list, the first entry of the
  list being the oldest.
\<close>

type_synonym 'v JsMap = "(string \<times> 'v) list"

definition Map_get :: "'v JsMap \<Rightarrow> string \<Rightarrow> 'v option" where
  "Map_get m k = map_of m k"

fun Map_set :: "'v JsMap \<Rightarrow> string \<Rightarrow> 'v \<Rightarrow> 'v JsMap" where
  "Map_set [] k v = [(k, v)]"
| "Map_set ((k', v') # m) k v = (if k' = k then (k, v) # m else (k', v') # Map_set m k v)"

definition Map_values :: "'v JsMap \<Rightarrow> 'v list" where
  "Map_values m = map snd m"

definition Map_keys :: "'v JsMap \<Rightarrow> string list" where
  "Map_keys m = map fst m"

record MemoryStorage =
  students :: "Student JsMap"
  vehicles :: "Vehicle JsMap"
  accessLogs :: "AccessLog JsMap"
  alerts :: "Alert JsMap"

text \<open>
  The lookups compare a stored string with the argument by \<open>===\<close>. The handlers hand
  over request fields unchecked on the manual paths, so the argument may be \<open>undefined\<close>
  (\<open>None\<close>), which equals no stored string.
\<close>

definition MemoryStorage_getStudentByStudentId ::
  "MemoryStorage \<Rightarrow> string option \<Rightarrow> StudentWithVehicle option" where
  "MemoryStorage_getStudentByStudentId this studentId =
     (case find (\<lambda>s. Some (Student_studentId s) = studentId) (Map_values (students this)) of
        None \<Rightarrow> None
      | Some student \<Rightarrow>
          Some (spread_vehicle student
                  (find (\<lambda>v. Vehicle_studentId v = Student_id student)
                        (Map_values (vehicles this)))))"

definition MemoryStorage_getVehicleByPlate ::
  "MemoryStorage \<Rightarrow> string option \<Rightarrow> Vehicle option" where
  "MemoryStorage_getVehicleByPlate this plateNumber =
     find (\<lambda>v. Some (Vehicle_plateNumber v) = plateNumber) (Map_values (vehicles this))"

definition MemoryStorage_verifyStudentAndVehicle ::
  "MemoryStorage \<Rightarrow> string \<Rightarrow> string \<Rightarrow> Verification" where
  "MemoryStorage_verifyStudentAndVehicle this studentId plateNumber =
     (let studentWithVehicle = MemoryStorage_getStudentByStudentId this (Some studentId);
          vehicle = MemoryStorage_getVehicleByPlate this (Some plateNumber)
      in case studentWithVehicle of
           None \<Rightarrow>
             \<lparr> Verification_student = None, Verification_vehicle = None,
               Verification_isValid = False,
               Verification_reason = Some ''Student ID not found'' \<rparr>
         | Some s \<Rightarrow>
             (case vehicle of
                None \<Rightarrow>
                  \<lparr> Verification_student = Some s, Verification_vehicle = None,
                    Verification_isValid = False,
                    Verification_reason = Some ''Vehicle not registered'' \<rparr>
              | Some v \<Rightarrow>
                  if Vehicle_studentId v \<noteq> Student_id s then
                    \<lparr> Verification_student = Some s, Verification_vehicle = Some v,
                      Verification_isValid = False,
                      Verification_reason = Some ''Vehicle does not belong to this student'' \<rparr>
                  else if \<not> truthy_flag (Student_isActive s) \<or> \<not> truthy_flag (Vehicle_isActive v) then
                    \<lparr> Verification_student = Some s, Verification_vehicle = Some v,
                      Verification_isValid = False,
                      Verification_reason = Some ''Student or vehicle is inactive'' \<rparr>
                  else
                    \<lparr> Verification_student = Some s, Verification_vehicle = Some v,
                      Verification_isValid = True,
                      Verification_reason = None \<rparr>))"

section \<open>The database-backed store (class DrizzleStorage)\<close>

text \<open>
  A table is the list of its rows; a query without \<open>orderBy\<close> returns rows in the order
  of the list. \<open>leftJoin\<close> pairs every row of the left table with each matching row of
  the right one, or with NULL when none matches; \<open>where\<close> filters and \<open>limit\<close> truncates.
  SQL leaves the order of the rows open: the comparison of the two stores below is made
  for rows in the same order and, under the unique constraints of the schema, for rows in
  any order.
\<close>

record Database =
  students_table :: "Student list"
  vehicles_table :: "Vehicle list"
  accessLogs_table :: "AccessLog list"
  alerts_table :: "Alert list"

definition leftJoin :: "'a list \<Rightarrow> 'b list \<Rightarrow> ('a \<Rightarrow> 'b \<Rightarrow> bool) \<Rightarrow> ('a \<times> 'b option) list" where
  "leftJoin ls rs on =
     concat (map (\<lambda>l. case filter (on l) rs of
                          [] \<Rightarrow> [(l, None)]
                        | ms \<Rightarrow> map (\<lambda>r. (l, Some r)) ms) ls)"

definition DrizzleStorage_getStudentByStudentId ::
  "Database \<Rightarrow> string \<Rightarrow> StudentWithVehicle option" where
  "DrizzleStorage_getStudentByStudentId db studentId =
     (let result = take 1 (filter (\<lambda>row. Student_studentId (fst row) = studentId)
                             (leftJoin (students_table db) (vehicles_table db)
                                (\<lambda>s v. Student_id s = Vehicle_studentId v)))
      in case result of
           [] \<Rightarrow> None
         | row # _ \<Rightarrow> Some (spread_vehicle (fst row) (snd row)))"

definition DrizzleStorage_getVehicleByPlate :: "Database \<Rightarrow> string \<Rightarrow> Vehicle option" where
  "DrizzleStorage_getVehicleByPlate db plateNumber =
     (case take 1 (filter (\<lambda>v. Vehicle_plateNumber v = plateNumber) (vehicles_table db)) of
        [] \<Rightarrow> None
      | v # _ \<Rightarrow> Some v)"

definition DrizzleStorage_verifyStudentAndVehicle ::
  "Database \<Rightarrow> string \<Rightarrow> string \<Rightarrow> Verification" where
  "DrizzleStorage_verifyStudentAndVehicle db studentId plateNumber =
     (let student = DrizzleStorage_getStudentByStudentId db studentId;
          vehicle = DrizzleStorage_getVehicleByPlate db plateNumber
      in case student of
           None \<Rightarrow>
             \<lparr> Verification_student = None, Verification_vehicle = None,
               Verification_isValid = False,
               Verification_reason = Some ''Student ID not found'' \<rparr>
         | Some s \<Rightarrow>
             (case vehicle of
                None \<Rightarrow>
                  \<lparr> Verification_student = Some s, Verification_vehicle = None,
                    Verification_isValid = False,
                    Verification_reason = Some ''Vehicle not registered'' \<rparr>
              | Some v \<Rightarrow>
                  if Vehicle_studentId v \<noteq> Student_id s then
                    \<lparr> Verification_student = Some s, Verification_vehicle = Some v,
                      Verification_isValid = False,
                      Verification_reason = Some ''Vehicle does not belong to this student'' \<rparr>
                  else if \<not> truthy_flag (Student_isActive s) \<or> \<not> truthy_flag (Vehicle_isActive v) then
                    \<lparr> Verification_student = Some s, Verification_vehicle = Some v,
                      Verification_isValid = False,
                      Verification_reason = Some ''Student or vehicle is inactive'' \<rparr>
                  else
                    \<lparr> Verification_student = Some s, Verification_vehicle = Some v,
                      Verification_isValid = True,
                      Verification_reason = None \<rparr>))"

text \<open>
  The totals of \<open>getDashboardStats\<close> as the database computes them: a comparison with a
  NULL timestamp is not true, so such a row is not selected. The value of \<open>new Date()\<close>
  is the argument \<open>now\<close>.
\<close>

record DashboardStats =
  totalAccess :: nat
  granted :: nat
  denied :: nat
  activeGates :: nat

text \<open>
  \<open>today.setHours(0, 0, 0, 0)\<close> and \<open>tomorrow.setDate(tomorrow.getDate() + 1)\<close>, in
  milliseconds, for a server whose local time is UTC.
\<close>

definition day_ms :: nat where
  "day_ms = 86400000"

definition startOfDay :: "nat \<Rightarrow> nat" where
  "startOfDay now = now - now mod day_ms"

definition dayAfter :: "nat \<Rightarrow> nat" where
  "dayAfter today = today + day_ms"

definition DrizzleStorage_getDashboardStats :: "Database \<Rightarrow> nat \<Rightarrow> DashboardStats" where
  "DrizzleStorage_getDashboardStats db now =
     (let today = startOfDay now;
          tomorrow = dayAfter today;
          todayLogs = filter (\<lambda>log. case AccessLog_timestamp log of
                                       None \<Rightarrow> False
                                     | Some t \<Rightarrow> today \<le> t \<and> t < tomorrow)
                        (accessLogs_table db);
          granted = length (filter (\<lambda>log. AccessLog_accessStatus log = ''granted'') todayLogs);
          denied = length (filter (\<lambda>log. AccessLog_accessStatus log = ''denied'') todayLogs)
      in \<lparr> totalAccess = length todayLogs, granted = granted, denied = denied,
           activeGates = 2 \<rparr>)"

section \<open>MemoryStorage: writes and statistics\<close>

text \<open>
  What the process reads from outside the store: the identifiers that
  \<open>crypto.randomUUID()\<close> (or its fallback on \<open>Date.now()\<close> and \<open>Math.random()\<close>) hands
  out, as a sequence with the number of identifiers taken so far, and the clock that
  \<open>new Date()\<close> reads.
\<close>

record World =
  uuids :: "nat \<Rightarrow> string"
  uuid_calls :: nat
  clock :: nat

definition generate_id :: "World \<Rightarrow> string \<times> World" where
  "generate_id w = (uuids w (uuid_calls w), w\<lparr>uuid_calls := Suc (uuid_calls w)\<rparr>)"

record MemoryState =
  store :: MemoryStorage
  world :: World

text \<open>\<open>{ id, timestamp: new Date(), metadata: null, ...logInput }\<close>\<close>

definition MemoryStorage_createAccessLog ::
  "MemoryState \<Rightarrow> InsertAccessLog \<Rightarrow> AccessLog \<times> MemoryState" where
  "MemoryStorage_createAccessLog st logInput =
     (let (newId, w) = generate_id (world st);
          log = \<lparr> AccessLog_id = newId,
                  AccessLog_studentId = InsertAccessLog_studentId logInput,
                  AccessLog_vehicleId = InsertAccessLog_vehicleId logInput,
                  AccessLog_plateNumber = InsertAccessLog_plateNumber logInput,
                  AccessLog_gateLocation = InsertAccessLog_gateLocation logInput,
                  AccessLog_accessStatus = InsertAccessLog_accessStatus logInput,
                  AccessLog_reason = InsertAccessLog_reason logInput,
                  AccessLog_timestamp = Some (clock w),
                  AccessLog_metadata =
                    (case InsertAccessLog_metadata logInput of None \<Rightarrow> JNull | Some j \<Rightarrow> j) \<rparr>
      in (log, st\<lparr> store := (store st)\<lparr> accessLogs := Map_set (accessLogs (store st)) newId log \<rparr>,
                   world := w \<rparr>))"

text \<open>\<open>{ id, isRead: false, createdAt: new Date(), metadata: null, ...alertInput }\<close>\<close>

definition MemoryStorage_createAlert ::
  "MemoryState \<Rightarrow> InsertAlert \<Rightarrow> Alert \<times> MemoryState" where
  "MemoryStorage_createAlert st alertInput =
     (let (newId, w) = generate_id (world st);
          alert = \<lparr> Alert_id = newId,
                    Alert_type = InsertAlert_type alertInput,
                    Alert_severity = InsertAlert_severity alertInput,
                    Alert_title = InsertAlert_title alertInput,
                    Alert_description = InsertAlert_description alertInput,
                    Alert_gateLocation = InsertAlert_gateLocation alertInput,
                    Alert_metadata =
                      (case InsertAlert_metadata alertInput of None \<Rightarrow> JNull | Some j \<Rightarrow> j),
                    Alert_isRead =
                      (case InsertAlert_isRead alertInput of None \<Rightarrow> Some False | Some b \<Rightarrow> b),
                    Alert_createdAt = Some (clock w) \<rparr>
      in (alert, st\<lparr> store := (store st)\<lparr> alerts := Map_set (alerts (store st)) newId alert \<rparr>,
                     world := w \<rparr>))"

definition MemoryStorage_markAlertAsRead :: "MemoryStorage \<Rightarrow> string \<Rightarrow> MemoryStorage" where
  "MemoryStorage_markAlertAsRead this alertId =
     (case Map_get (alerts this) alertId of
        None \<Rightarrow> this
      | Some alert \<Rightarrow>
          this\<lparr> alerts := Map_set (alerts this) alertId (alert\<lparr> Alert_isRead := Some True \<rparr>) \<rparr>)"

text \<open>
  \<open>new Date(l.timestamp).getTime()\<close>; \<open>new Date(null)\<close> is the epoch. The column type
  is \<open>Date | null\<close>, and \<open>createAccessLog\<close> always sets a date: \<open>None\<close> is \<open>null\<close>.
\<close>

definition getTime :: "nat option \<Rightarrow> nat" where
  "getTime ts = (case ts of None \<Rightarrow> 0 | Some t \<Rightarrow> t)"

definition MemoryStorage_getDashboardStats :: "MemoryStorage \<Rightarrow> nat \<Rightarrow> DashboardStats" where
  "MemoryStorage_getDashboardStats this now =
     (let today = startOfDay now;
          tomorrow = dayAfter today;
          todayLogs = filter (\<lambda>l. let t = getTime (AccessLog_timestamp l)
                                   in t \<ge> today \<and> t < tomorrow)
                        (Map_values (accessLogs this));
          granted = length (filter (\<lambda>l. AccessLog_accessStatus l = ''granted'') todayLogs);
          denied = length (filter (\<lambda>l. AccessLog_accessStatus l = ''denied'') todayLogs)
      in \<lparr> totalAccess = length todayLogs, granted = granted, denied = denied,
           activeGates = 2 \<rparr>)"

section \<open>The storage interface and the request handlers (routes.ts)\<close>

text \<open>
  \<open>interface IStorage\<close>, with the methods the handlers below call. A method is handed
  the state of the store and returns the state it leaves, with its value when the promise
  resolves and an error when it rejects. The handlers are written against the interface,
  as \<open>routes.ts\<close> is against \<open>storage: IStorage\<close>.
\<close>

datatype error = Rejected string

record 's IStorage =
  getStudentByStudentId :: "'s \<Rightarrow> string option \<Rightarrow> (error + StudentWithVehicle option) \<times> 's"
  getVehicleByPlate :: "'s \<Rightarrow> string option \<Rightarrow> (error + Vehicle option) \<times> 's"
  createAccessLog :: "'s \<Rightarrow> InsertAccessLog \<Rightarrow> (error + AccessLog) \<times> 's"
  createAlert :: "'s \<Rightarrow> InsertAlert \<Rightarrow> (error + Alert) \<times> 's"
  markAlertAsRead :: "'s \<Rightarrow> string \<Rightarrow> (error + unit) \<times> 's"
  verifyStudentAndVehicle :: "'s \<Rightarrow> string \<Rightarrow> string \<Rightarrow> (error + Verification) \<times> 's"

text \<open>\<open>new MemoryStorage()\<close> behind the interface: none of its promises rejects.\<close>

definition MemoryStorage_IStorage :: "MemoryState IStorage" where
  "MemoryStorage_IStorage =
     \<lparr> getStudentByStudentId =
         (\<lambda>st studentId. (Inr (MemoryStorage_getStudentByStudentId (store st) studentId), st)),
       getVehicleByPlate =
         (\<lambda>st plateNumber. (Inr (MemoryStorage_getVehicleByPlate (store st) plateNumber), st)),
       createAccessLog =
         (\<lambda>st logInput. case MemoryStorage_createAccessLog st logInput of
                           (log, st') \<Rightarrow> (Inr log, st')),
       createAlert =
         (\<lambda>st alertInput. case MemoryStorage_createAlert st alertInput of
                             (alert, st') \<Rightarrow> (Inr alert, st')),
       markAlertAsRead =
         (\<lambda>st alertId. (Inr (), st\<lparr> store := MemoryStorage_markAlertAsRead (store st) alertId \<rparr>)),
       verifyStudentAndVehicle =
         (\<lambda>st studentId plateNumber.
            (Inr (MemoryStorage_verifyStudentAndVehicle (store st) studentId plateNumber), st)) \<rparr>"

text \<open>\<open>{ ...accessLog, student, vehicle }\<close> and \<open>{ ...verification, accessLog }\<close>\<close>

record AccessLogWithDetails = AccessLog +
  details_student :: "StudentWithVehicle option"
  details_vehicle :: "Vehicle option"

definition spread_details ::
  "AccessLog \<Rightarrow> StudentWithVehicle option \<Rightarrow> Vehicle option \<Rightarrow> AccessLogWithDetails" where
  "spread_details l s v =
     \<lparr> AccessLog_id = AccessLog_id l,
       AccessLog_studentId = AccessLog_studentId l,
       AccessLog_vehicleId = AccessLog_vehicleId l,
       AccessLog_plateNumber = AccessLog_plateNumber l,
       AccessLog_gateLocation = AccessLog_gateLocation l,
       AccessLog_accessStatus = AccessLog_accessStatus l,
       AccessLog_reason = AccessLog_reason l,
       AccessLog_timestamp = AccessLog_timestamp l,
       AccessLog_metadata = AccessLog_metadata l,
       details_student = s,
       details_vehicle = v \<rparr>"

record VerificationWithLog = Verification +
  accessLog :: AccessLogWithDetails

definition spread_accessLog :: "Verification \<Rightarrow> AccessLogWithDetails \<Rightarrow> VerificationWithLog" where
  "spread_accessLog r l =
     \<lparr> Verification_student = Verification_student r,
       Verification_vehicle = Verification_vehicle r,
       Verification_isValid = Verification_isValid r,
       Verification_reason = Verification_reason r,
       accessLog = l \<rparr>"

datatype payload = AlertData Alert | AccessLogData AccessLogWithDetails

record WebSocketMessage =
  message_type :: string
  message_data :: payload

text \<open>
  What a handler does to its collaborators, in the order it does it: the calls of storage
  methods and the calls of \<open>broadcast\<close>.
\<close>

datatype call =
    Call_getStudentByStudentId "string option"
  | Call_getVehicleByPlate "string option"
  | Call_createAccessLog InsertAccessLog
  | Call_createAlert InsertAlert
  | Call_markAlertAsRead string
  | Call_verifyStudentAndVehicle string string
  | Call_broadcast WebSocketMessage

text \<open>\<open>res.json(...)\<close> and \<open>res.status(n).json({ error: ... })\<close>\<close>

datatype reply =
    VerifyAccessReply VerificationWithLog
  | GrantAccessReply bool AccessLogWithDetails
  | DenyAccessReply bool AccessLogWithDetails Alert
  | SuccessReply bool

datatype response = Json reply | Status nat string

text \<open>The fields the handlers read from \<open>req.body\<close>; \<open>None\<close> is a field that is missing.\<close>

record RequestBody =
  body_studentId :: "string option"
  body_plateNumber :: "string option"
  body_gateLocation :: "string option"
  body_reason :: "string option"

text \<open>\<open>!x\<close> and \<open>x || d\<close> on a string that may be missing: the empty string is falsy.\<close>

definition falsy :: "string option \<Rightarrow> bool" where
  "falsy x = (case x of None \<Rightarrow> True | Some s \<Rightarrow> s = [])"

definition or_null :: "string option \<Rightarrow> string option" where
  "or_null x = (if falsy x then None else x)"

definition or_default :: "string option \<Rightarrow> string \<Rightarrow> string" where
  "or_default x d = (case x of None \<Rightarrow> d | Some s \<Rightarrow> if s = [] then d else s)"

text \<open>A value inside a template literal.\<close>

definition interpolate :: "string option \<Rightarrow> string" where
  "interpolate x = (case x of None \<Rightarrow> ''undefined'' | Some s \<Rightarrow> s)"

text \<open>
  A request field as a property of a metadata object. A missing field leaves no key. A
  field sent as \<open>null\<close> is not told apart from a missing one in \<open>RequestBody\<close>, so it
  leaves no key here either, where the code keeps the key with the value \<open>null\<close>.
\<close>

definition json_field :: "string \<Rightarrow> string option \<Rightarrow> (string \<times> json) list" where
  "json_field k x = (case x of None \<Rightarrow> [] | Some s \<Rightarrow> [(k, JStr s)])"

text \<open>
  \<open>POST /api/verify-access\<close>. The two object literals the handler passes to the store
  come first, then the handler, with the three fields of the body it has checked.
\<close>

definition verify_access_logInput ::
  "Verification \<Rightarrow> string \<Rightarrow> string \<Rightarrow> InsertAccessLog" where
  "verify_access_logInput verification plateNumber gateLocation =
     \<lparr> InsertAccessLog_studentId =
         or_null (map_option Student_id (Verification_student verification)),
       InsertAccessLog_vehicleId =
         or_null (map_option Vehicle_id (Verification_vehicle verification)),
       InsertAccessLog_plateNumber = Some plateNumber,
       InsertAccessLog_gateLocation = Some gateLocation,
       InsertAccessLog_accessStatus =
         (if Verification_isValid verification then ''granted'' else ''denied''),
       InsertAccessLog_reason = Verification_reason verification,
       InsertAccessLog_metadata = Some (JObj [(''confidence'', JNum 100)]) \<rparr>"

definition verify_access_alertInput ::
  "Verification \<Rightarrow> string \<Rightarrow> string \<Rightarrow> string \<Rightarrow> InsertAlert" where
  "verify_access_alertInput verification studentId plateNumber gateLocation =
     \<lparr> InsertAlert_type = ''unauthorized_access'',
       InsertAlert_severity = ''critical'',
       InsertAlert_title = ''Unauthorized Access Attempt'',
       InsertAlert_description =
         interpolate (Verification_reason verification) @ '' - Vehicle: '' @ plateNumber,
       InsertAlert_gateLocation = Some gateLocation,
       InsertAlert_metadata =
         Some (JObj [(''studentId'', JStr studentId), (''plateNumber'', JStr plateNumber)]),
       InsertAlert_isRead = None \<rparr>"

definition verify_access_checked ::
  "'s IStorage \<Rightarrow> 's \<Rightarrow> string \<Rightarrow> string \<Rightarrow> string \<Rightarrow> response \<times> 's \<times> call list" where
  "verify_access_checked storage st studentId plateNumber gateLocation =
     (case verifyStudentAndVehicle storage st studentId plateNumber of
        (Inl e, st1) \<Rightarrow>
          (Status 500 ''Failed to verify access'', st1,
           [Call_verifyStudentAndVehicle studentId plateNumber])
      | (Inr verification, st1) \<Rightarrow>
          (let logInput = verify_access_logInput verification plateNumber gateLocation
           in (case createAccessLog storage st1 logInput of
                 (Inl e, st2) \<Rightarrow>
                   (Status 500 ''Failed to verify access'', st2,
                    [Call_verifyStudentAndVehicle studentId plateNumber,
                     Call_createAccessLog logInput])
               | (Inr log, st2) \<Rightarrow>
                   (let logWithDetails =
                          spread_details log (Verification_student verification)
                                             (Verification_vehicle verification);
                        logMessage = \<lparr> message_type = ''access_log'',
                                       message_data = AccessLogData logWithDetails \<rparr>;
                        reply = Json (VerifyAccessReply
                                        (spread_accessLog verification logWithDetails))
                    in (if \<not> Verification_isValid verification
                        then
                          (let alertInput =
                                 verify_access_alertInput verification studentId plateNumber
                                   gateLocation
                           in (case createAlert storage st2 alertInput of
                                 (Inl e, st3) \<Rightarrow>
                                   (Status 500 ''Failed to verify access'', st3,
                                    [Call_verifyStudentAndVehicle studentId plateNumber,
                                     Call_createAccessLog logInput,
                                     Call_createAlert alertInput])
                               | (Inr alert, st3) \<Rightarrow>
                                   (reply, st3,
                                    [Call_verifyStudentAndVehicle studentId plateNumber,
                                     Call_createAccessLog logInput,
                                     Call_createAlert alertInput,
                                     Call_broadcast \<lparr> message_type = ''new_alert'',
                                                      message_data = AlertData alert \<rparr>,
                                     Call_broadcast logMessage])))
                        else
                          (reply, st2,
                           [Call_verifyStudentAndVehicle studentId plateNumber,
                            Call_createAccessLog logInput,
                            Call_broadcast logMessage]))))))"

definition verify_access ::
  "'s IStorage \<Rightarrow> 's \<Rightarrow> RequestBody \<Rightarrow> response \<times> 's \<times> call list" where
  "verify_access storage st body =
     (if falsy (body_studentId body) \<or> falsy (body_plateNumber body)
           \<or> falsy (body_gateLocation body)
      then (Status 400 ''Missing required fields'', st, [])
      else verify_access_checked storage st (the (body_studentId body))
             (the (body_plateNumber body)) (the (body_gateLocation body)))"

text \<open>\<open>PUT /api/alerts/:id/read\<close>\<close>

definition mark_alert_read :: "'s IStorage \<Rightarrow> 's \<Rightarrow> string \<Rightarrow> response \<times> 's \<times> call list" where
  "mark_alert_read storage st alertId =
     (case markAlertAsRead storage st alertId of
        (Inl e, st1) \<Rightarrow> (Status 500 ''Failed to mark alert as read'', st1, [Call_markAlertAsRead alertId])
      | (Inr u, st1) \<Rightarrow> (Json (SuccessReply True), st1, [Call_markAlertAsRead alertId]))"

text \<open>\<open>POST /api/grant-access\<close>: no field of the body is checked.\<close>

definition grant_access_logInput ::
  "StudentWithVehicle option \<Rightarrow> Vehicle option \<Rightarrow> RequestBody \<Rightarrow> InsertAccessLog" where
  "grant_access_logInput studentRow vehicleRow body =
     \<lparr> InsertAccessLog_studentId = or_null (map_option Student_id studentRow),
       InsertAccessLog_vehicleId = or_null (map_option Vehicle_id vehicleRow),
       InsertAccessLog_plateNumber = body_plateNumber body,
       InsertAccessLog_gateLocation = body_gateLocation body,
       InsertAccessLog_accessStatus = ''granted'',
       InsertAccessLog_reason = Some ''Manual approval'',
       InsertAccessLog_metadata = Some (JObj [(''manual'', JBool True)]) \<rparr>"

definition grant_access ::
  "'s IStorage \<Rightarrow> 's \<Rightarrow> RequestBody \<Rightarrow> response \<times> 's \<times> call list" where
  "grant_access storage st body =
     (case getStudentByStudentId storage st (body_studentId body) of
        (Inl e, st1) \<Rightarrow>
          (Status 500 ''Failed to grant access'', st1,
           [Call_getStudentByStudentId (body_studentId body)])
      | (Inr studentRow, st1) \<Rightarrow>
          (case getVehicleByPlate storage st1 (body_plateNumber body) of
             (Inl e, st2) \<Rightarrow>
               (Status 500 ''Failed to grant access'', st2,
                [Call_getStudentByStudentId (body_studentId body),
                 Call_getVehicleByPlate (body_plateNumber body)])
           | (Inr vehicleRow, st2) \<Rightarrow>
               (let logInput = grant_access_logInput studentRow vehicleRow body
                in (case createAccessLog storage st2 logInput of
                      (Inl e, st3) \<Rightarrow>
                        (Status 500 ''Failed to grant access'', st3,
                         [Call_getStudentByStudentId (body_studentId body),
                          Call_getVehicleByPlate (body_plateNumber body),
                          Call_createAccessLog logInput])
                    | (Inr log, st3) \<Rightarrow>
                        (let logWithDetails = spread_details log studentRow vehicleRow
                         in (Json (GrantAccessReply True logWithDetails), st3,
                             [Call_getStudentByStudentId (body_studentId body),
                              Call_getVehicleByPlate (body_plateNumber body),
                              Call_createAccessLog logInput,
                              Call_broadcast \<lparr> message_type = ''access_granted'',
                                               message_data = AccessLogData logWithDetails \<rparr>]))))))"

text \<open>
  \<open>POST /api/deny-access\<close>. A lookup is made only for a field that is truthy:
  \<open>studentId ? await storage.getStudentByStudentId(studentId) : null\<close>.
\<close>

definition deny_access_logInput ::
  "StudentWithVehicle option \<Rightarrow> Vehicle option \<Rightarrow> RequestBody \<Rightarrow> InsertAccessLog" where
  "deny_access_logInput studentRow vehicleRow body =
     \<lparr> InsertAccessLog_studentId = or_null (map_option Student_id studentRow),
       InsertAccessLog_vehicleId = or_null (map_option Vehicle_id vehicleRow),
       InsertAccessLog_plateNumber = Some (or_default (body_plateNumber body) ''Unknown''),
       InsertAccessLog_gateLocation = body_gateLocation body,
       InsertAccessLog_accessStatus = ''denied'',
       InsertAccessLog_reason = Some (or_default (body_reason body) ''Manual denial''),
       InsertAccessLog_metadata = Some (JObj [(''manual'', JBool True)]) \<rparr>"

definition deny_access_alertInput :: "RequestBody \<Rightarrow> InsertAlert" where
  "deny_access_alertInput body =
     \<lparr> InsertAlert_type = ''unauthorized_access'',
       InsertAlert_severity = ''critical'',
       InsertAlert_title = ''Access Manually Denied'',
       InsertAlert_description =
         or_default (body_reason body) ''Manual denial'' @ '' - Vehicle: ''
           @ or_default (body_plateNumber body) ''Unknown'',
       InsertAlert_gateLocation = body_gateLocation body,
       InsertAlert_metadata =
         Some (JObj (json_field ''studentId'' (body_studentId body)
                     @ json_field ''plateNumber'' (body_plateNumber body)
                     @ [(''manual'', JBool True)])),
       InsertAlert_isRead = None \<rparr>"

definition deny_access_student ::
  "'s IStorage \<Rightarrow> 's \<Rightarrow> RequestBody \<Rightarrow> ((error + StudentWithVehicle option) \<times> 's) \<times> call list" where
  "deny_access_student storage st body =
     (if falsy (body_studentId body) then ((Inr None, st), [])
      else (getStudentByStudentId storage st (body_studentId body),
            [Call_getStudentByStudentId (body_studentId body)]))"

definition deny_access_vehicle ::
  "'s IStorage \<Rightarrow> 's \<Rightarrow> RequestBody \<Rightarrow> ((error + Vehicle option) \<times> 's) \<times> call list" where
  "deny_access_vehicle storage st body =
     (if falsy (body_plateNumber body) then ((Inr None, st), [])
      else (getVehicleByPlate storage st (body_plateNumber body),
            [Call_getVehicleByPlate (body_plateNumber body)]))"

definition deny_access ::
  "'s IStorage \<Rightarrow> 's \<Rightarrow> RequestBody \<Rightarrow> response \<times> 's \<times> call list" where
  "deny_access storage st body =
     (case deny_access_student storage st body of
        ((Inl e, st1), calls1) \<Rightarrow> (Status 500 ''Failed to deny access'', st1, calls1)
      | ((Inr studentRow, st1), calls1) \<Rightarrow>
          (case deny_access_vehicle storage st1 body of
             ((Inl e, st2), calls2) \<Rightarrow>
               (Status 500 ''Failed to deny access'', st2, calls1 @ calls2)
           | ((Inr vehicleRow, st2), calls2) \<Rightarrow>
               (let logInput = deny_access_logInput studentRow vehicleRow body;
                    alertInput = deny_access_alertInput body
                in (case createAccessLog storage st2 logInput of
                      (Inl e, st3) \<Rightarrow>
                        (Status 500 ''Failed to deny access'', st3,
                         calls1 @ calls2 @ [Call_createAccessLog logInput])
                    | (Inr log, st3) \<Rightarrow>
                        (case createAlert storage st3 alertInput of
                           (Inl e, st4) \<Rightarrow>
                             (Status 500 ''Failed to deny access'', st4,
                              calls1 @ calls2
                                @ [Call_createAccessLog logInput, Call_createAlert alertInput])
                         | (Inr alert, st4) \<Rightarrow>
                             (let logWithDetails = spread_details log studentRow vehicleRow
                              in (Json (DenyAccessReply True logWithDetails alert), st4,
                                  calls1 @ calls2
                                    @ [Call_createAccessLog logInput,
                                       Call_createAlert alertInput,
                                       Call_broadcast
                                         \<lparr> message_type = ''access_denied'',
                                           message_data = AccessLogData logWithDetails \<rparr>,
                                       Call_broadcast
                                         \<lparr> message_type = ''new_alert'',
                                           message_data = AlertData alert \<rparr>])))))))"

section \<open>Broadcast to the connected clients\<close>

text \<open>
  \<open>connectedClients\<close> is a \<open>Set\<close>, visited in insertion order: a list of sockets. What
  \<open>broadcast\<close> does is the list of its effects on the outside: one \<open>JSON.stringify\<close>,
  then the sends. \<open>JSON.stringify\<close> and the socket's \<open>send\<close> belong to the runtime and to
  the \<open>ws\<close> library; they are parameters: the serializer, and the predicate that tells
  whether \<open>client.send(messageStr)\<close> throws. An exception leaves \<open>forEach\<close> and
  \<open>broadcast\<close> at once, since neither catches it.
\<close>

datatype ReadyState = CONNECTING | OPEN | CLOSING | CLOSED

record WebSocket =
  socket_id :: nat
  readyState :: ReadyState

datatype effect = Stringify WebSocketMessage | Send WebSocket string

datatype outcome = Returned | Threw

fun forEach_client ::
  "(WebSocket \<Rightarrow> string \<Rightarrow> bool) \<Rightarrow> WebSocket list \<Rightarrow> string \<Rightarrow> effect list \<times> outcome" where
  "forEach_client send_throws [] messageStr = ([], Returned)"
| "forEach_client send_throws (client # rest) messageStr =
     (if readyState client = OPEN
      then (if send_throws client messageStr
            then ([Send client messageStr], Threw)
            else (case forEach_client send_throws rest messageStr of
                    (effects, result) \<Rightarrow> (Send client messageStr # effects, result)))
      else forEach_client send_throws rest messageStr)"

definition broadcast ::
  "(WebSocketMessage \<Rightarrow> string) \<Rightarrow> (WebSocket \<Rightarrow> string \<Rightarrow> bool) \<Rightarrow> WebSocket list
     \<Rightarrow> WebSocketMessage \<Rightarrow> effect list \<times> outcome" where
  "broadcast JSON_stringify send_throws connectedClients message =
     (let messageStr = JSON_stringify message
      in (case forEach_client send_throws connectedClients messageStr of
            (effects, result) \<Rightarrow> (Stringify message # effects, result)))"

section \<open>Example data\<close>

text \<open>
  The store of the specification's first end-to-end scenario: identity \<open>S100\<close>, active,
  of department CS, owns the active vehicle \<open>ABC123\<close>. The same content as rows of the
  database, and the store of \<open>new MemoryStorage()\<close>.
\<close>

definition scenario_student :: Student where
  "scenario_student =
     \<lparr> Student_id = ''u1'', Student_studentId = ''S100'', Student_name = ''Asha'',
       Student_rollNumber = ''17'', Student_department = ''CS'', Student_year = ''2'',
       Student_division = ''A'', Student_contactNumber = ''555'', Student_photoUrl = None,
       Student_isActive = Some True, Student_createdAt = Some 0 \<rparr>"

definition scenario_vehicle :: Vehicle where
  "scenario_vehicle =
     \<lparr> Vehicle_id = ''v1'', Vehicle_studentId = ''u1'', Vehicle_plateNumber = ''ABC123'',
       Vehicle_vehicleType = ''car'', Vehicle_model = None, Vehicle_color = None,
       Vehicle_isActive = Some True, Vehicle_createdAt = Some 0 \<rparr>"

definition scenario_store :: MemoryStorage where
  "scenario_store =
     \<lparr> students = [(''u1'', scenario_student)], vehicles = [(''v1'', scenario_vehicle)],
       accessLogs = [], alerts = [] \<rparr>"

definition scenario_db :: Database where
  "scenario_db =
     \<lparr> students_table = [scenario_student], vehicles_table = [scenario_vehicle],
       accessLogs_table = [], alerts_table = [] \<rparr>"

text \<open>
  A second student with a vehicle of her own; a store that holds both students, and a
  database that holds the same rows in the opposite order.
\<close>

definition second_student :: Student where
  "second_student =
     \<lparr> Student_id = ''u2'', Student_studentId = ''S200'', Student_name = ''Bela'',
       Student_rollNumber = ''18'', Student_department = ''EE'', Student_year = ''3'',
       Student_division = ''B'', Student_contactNumber = ''556'', Student_photoUrl = None,
       Student_isActive = Some True, Student_createdAt = Some 0 \<rparr>"

definition second_vehicle :: Vehicle where
  "second_vehicle =
     \<lparr> Vehicle_id = ''v2'', Vehicle_studentId = ''u2'', Vehicle_plateNumber = ''XYZ777'',
       Vehicle_vehicleType = ''bike'', Vehicle_model = None, Vehicle_color = None,
       Vehicle_isActive = Some True, Vehicle_createdAt = Some 0 \<rparr>"

definition two_students_store :: MemoryStorage where
  "two_students_store =
     \<lparr> students = [(''u1'', scenario_student), (''u2'', second_student)],
       vehicles = [(''v1'', scenario_vehicle), (''v2'', second_vehicle)],
       accessLogs = [], alerts = [] \<rparr>"

definition reversed_db :: Database where
  "reversed_db =
     \<lparr> students_table = [second_student, scenario_student],
       vehicles_table = [second_vehicle, scenario_vehicle],
       accessLogs_table = [], alerts_table = [] \<rparr>"

definition empty_store :: MemoryStorage where
  "empty_store = \<lparr> students = [], vehicles = [], accessLogs = [], alerts = [] \<rparr>"

text \<open>
  A process on the scenario's store: the identifiers it will be handed are
  \<open>id\<close>, \<open>idx\<close>, \<open>idxx\<close>, ..., and its clock stands at noon of the second day.
\<close>

definition scenario_world :: World where
  "scenario_world =
     \<lparr> uuids = (\<lambda>n. ''id'' @ replicate n (CHR ''x'')), uuid_calls = 0, clock = 129600000 \<rparr>"

definition scenario_state :: MemoryState where
  "scenario_state = \<lparr> store = scenario_store, world = scenario_world \<rparr>"

text \<open>Request bodies: the scenario's scan, and a scan of a plate that is not registered.\<close>

definition scenario_body :: RequestBody where
  "scenario_body =
     \<lparr> body_studentId = Some ''S100'', body_plateNumber = Some ''ABC123'',
       body_gateLocation = Some ''Gate1'', body_reason = None \<rparr>"

definition unregistered_body :: RequestBody where
  "unregistered_body =
     \<lparr> body_studentId = Some ''S100'', body_plateNumber = Some ''XYZ999'',
       body_gateLocation = Some ''Gate1'', body_reason = None \<rparr>"

text \<open>
  A process whose identifier generator hands out the same identifier \<open>id\<close> every time,
  on the scenario's store; and the scenario's scan with an empty gate location.
\<close>

definition repeating_world :: World where
  "repeating_world = \<lparr> uuids = (\<lambda>n. ''id''), uuid_calls = 0, clock = 129600000 \<rparr>"

definition repeating_state :: MemoryState where
  "repeating_state = \<lparr> store = scenario_store, world = repeating_world \<rparr>"

definition empty_gate_body :: RequestBody where
  "empty_gate_body =
     \<lparr> body_studentId = Some ''S100'', body_plateNumber = Some ''ABC123'',
       body_gateLocation = Some [], body_reason = None \<rparr>"

text \<open>
  A store with three access logs, one of the day before and two of the day of the
  scenario's clock, and the same logs as rows of the database.
\<close>

definition stale_log :: AccessLog where
  "stale_log =
     \<lparr> AccessLog_id = ''l0'', AccessLog_studentId = Some ''u1'', AccessLog_vehicleId = Some ''v1'',
       AccessLog_plateNumber = Some ''ABC123'', AccessLog_gateLocation = Some ''Gate1'',
       AccessLog_accessStatus = ''granted'', AccessLog_reason = None,
       AccessLog_timestamp = Some 1000, AccessLog_metadata = JObj [(''confidence'', JNum 100)] \<rparr>"

definition granted_log :: AccessLog where
  "granted_log =
     \<lparr> AccessLog_id = ''l1'', AccessLog_studentId = Some ''u1'', AccessLog_vehicleId = Some ''v1'',
       AccessLog_plateNumber = Some ''ABC123'', AccessLog_gateLocation = Some ''Gate1'',
       AccessLog_accessStatus = ''granted'', AccessLog_reason = None,
       AccessLog_timestamp = Some 129600000,
       AccessLog_metadata = JObj [(''confidence'', JNum 100)] \<rparr>"

definition denied_log :: AccessLog where
  "denied_log =
     \<lparr> AccessLog_id = ''l2'', AccessLog_studentId = Some ''u1'', AccessLog_vehicleId = None,
       AccessLog_plateNumber = Some ''XYZ999'', AccessLog_gateLocation = Some ''Gate1'',
       AccessLog_accessStatus = ''denied'', AccessLog_reason = Some ''Vehicle not registered'',
       AccessLog_timestamp = Some 130000000,
       AccessLog_metadata = JObj [(''confidence'', JNum 100)] \<rparr>"

definition stats_store :: MemoryStorage where
  "stats_store =
     \<lparr> students = [(''u1'', scenario_student)], vehicles = [(''v1'', scenario_vehicle)],
       accessLogs = [(''l0'', stale_log), (''l1'', granted_log), (''l2'', denied_log)],
       alerts = [] \<rparr>"

definition stats_db :: Database where
  "stats_db =
     \<lparr> students_table = [scenario_student], vehicles_table = [scenario_vehicle],
       accessLogs_table = [stale_log, granted_log, denied_log], alerts_table = [] \<rparr>"

text \<open>A store with two unread alerts.\<close>

definition first_alert :: Alert where
  "first_alert =
     \<lparr> Alert_id = ''a1'', Alert_type = ''unauthorized_access'', Alert_severity = ''critical'',
       Alert_title = ''Unauthorized Access Attempt'',
       Alert_description = ''Vehicle not registered - Vehicle: XYZ999'',
       Alert_gateLocation = Some ''Gate1'', Alert_metadata = JNull,
       Alert_isRead = Some False, Alert_createdAt = Some 129600000 \<rparr>"

definition second_alert :: Alert where
  "second_alert =
     \<lparr> Alert_id = ''a2'', Alert_type = ''unauthorized_access'', Alert_severity = ''critical'',
       Alert_title = ''Access Manually Denied'',
       Alert_description = ''Suspicious - Vehicle: ABC123'',
       Alert_gateLocation = Some ''Gate1'', Alert_metadata = JNull,
       Alert_isRead = Some False, Alert_createdAt = Some 130000000 \<rparr>"

definition alerts_store :: MemoryStorage where
  "alerts_store =
     \<lparr> students = [(''u1'', scenario_student)], vehicles = [(''v1'', scenario_vehicle)],
       accessLogs = [], alerts = [(''a1'', first_alert), (''a2'', second_alert)] \<rparr>"

text \<open>
  Four connected sockets, two of them open, a \<open>send\<close> that throws on a socket that is
  not open, and a serializer that keeps the type of the message.
\<close>

definition scenario_clients :: "WebSocket list" where
  "scenario_clients =
     [\<lparr> socket_id = 1, readyState = OPEN \<rparr>, \<lparr> socket_id = 2, readyState = CLOSED \<rparr>,
      \<lparr> socket_id = 3, readyState = OPEN \<rparr>, \<lparr> socket_id = 4, readyState = CONNECTING \<rparr>]"

definition throws_unless_open :: "WebSocket \<Rightarrow> string \<Rightarrow> bool" where
  "throws_unless_open client messageStr \<longleftrightarrow> readyState client \<noteq> OPEN"

definition type_only :: "WebSocketMessage \<Rightarrow> string" where
  "type_only message = message_type message"

definition scenario_message :: WebSocketMessage where
  "scenario_message = \<lparr> message_type = ''new_alert'', message_data = AlertData first_alert \<rparr>"

text \<open>
  A store in which several checks fail at once: the student \<open>S100\<close> is inactive, and the
  vehicle \<open>ABC123\<close> is inactive and belongs to somebody else.
\<close>

definition overlap_store :: MemoryStorage where
  "overlap_store =
     \<lparr> students = [(''u1'', scenario_student\<lparr> Student_isActive := Some False \<rparr>)],
       vehicles = [(''v1'', scenario_vehicle\<lparr> Vehicle_studentId := ''u2'',
                                              Vehicle_isActive := Some False \<rparr>)],
       accessLogs = [], alerts = [] \<rparr>"

text \<open>The manual denial of the third scenario: no identity token, reason \<open>Suspicious\<close>.\<close>

definition manual_deny_body :: RequestBody where
  "manual_deny_body =
     \<lparr> body_studentId = None, body_plateNumber = Some ''ABC123'',
       body_gateLocation = Some ''Gate1'', body_reason = Some ''Suspicious'' \<rparr>"

section \<open>Reading a handler's calls\<close>

text \<open>The arguments of the \<open>createAlert\<close> and of the \<open>createAccessLog\<close> calls among a list of calls.\<close>

fun createAlert_calls :: "call list \<Rightarrow> InsertAlert list" where
  "createAlert_calls [] = []"
| "createAlert_calls (Call_createAlert a # cs) = a # createAlert_calls cs"
| "createAlert_calls (c # cs) = createAlert_calls cs"

fun createAccessLog_calls :: "call list \<Rightarrow> InsertAccessLog list" where
  "createAccessLog_calls [] = []"
| "createAccessLog_calls (Call_createAccessLog l # cs) = l # createAccessLog_calls cs"
| "createAccessLog_calls (c # cs) = createAccessLog_calls cs"


section \<open>The checks of a verification, in the order the code makes them\<close>

text \<open>
  What the claims say of a verdict \<open>r\<close> for a token and a plate, over the students and
  the vehicles of a store in the order the store searches them. The record that a lookup
  resolves is the first one that matches.
\<close>

abbreviation first_failing_check ::
  "Student list \<Rightarrow> Vehicle list \<Rightarrow> string \<Rightarrow> string \<Rightarrow> Verification \<Rightarrow> bool" where
  "first_failing_check ss vs studentId plateNumber r \<equiv>
     (Verification_isValid r \<longleftrightarrow>
        (\<exists>s v. find (\<lambda>s. Student_studentId s = studentId) ss = Some s
             \<and> find (\<lambda>v. Vehicle_plateNumber v = plateNumber) vs = Some v
             \<and> Vehicle_studentId v = Student_id s
             \<and> Student_isActive s = Some True \<and> Vehicle_isActive v = Some True))
     \<and> (Verification_isValid r \<longrightarrow> Verification_reason r = None)
     \<and> (\<not> (\<exists>s \<in> set ss. Student_studentId s = studentId) \<longrightarrow>
          \<not> Verification_isValid r \<and> Verification_reason r = Some ''Student ID not found'')
     \<and> ((\<exists>s \<in> set ss. Student_studentId s = studentId)
          \<and> \<not> (\<exists>v \<in> set vs. Vehicle_plateNumber v = plateNumber) \<longrightarrow>
          \<not> Verification_isValid r \<and> Verification_reason r = Some ''Vehicle not registered'')
     \<and> (\<forall>s v. find (\<lambda>s. Student_studentId s = studentId) ss = Some s
             \<and> find (\<lambda>v. Vehicle_plateNumber v = plateNumber) vs = Some v
             \<and> Vehicle_studentId v \<noteq> Student_id s \<longrightarrow>
          \<not> Verification_isValid r
          \<and> Verification_reason r = Some ''Vehicle does not belong to this student'')
     \<and> (\<forall>s v. find (\<lambda>s. Student_studentId s = studentId) ss = Some s
             \<and> find (\<lambda>v. Vehicle_plateNumber v = plateNumber) vs = Some v
             \<and> Vehicle_studentId v = Student_id s
             \<and> (Student_isActive s \<noteq> Some True \<or> Vehicle_isActive v \<noteq> Some True) \<longrightarrow>
          \<not> Verification_isValid r
          \<and> Verification_reason r = Some ''Student or vehicle is inactive'')"

text \<open>The reason the code reports, as a function of the two records the lookups resolve.\<close>

abbreviation reported_reason :: "Student option \<Rightarrow> Vehicle option \<Rightarrow> string option" where
  "reported_reason identity car \<equiv>
     (case identity of
        None \<Rightarrow> Some ''Student ID not found''
      | Some s \<Rightarrow>
          (case car of
             None \<Rightarrow> Some ''Vehicle not registered''
           | Some v \<Rightarrow>
               if Vehicle_studentId v \<noteq> Student_id s
               then Some ''Vehicle does not belong to this student''
               else if Student_isActive s = Some True \<and> Vehicle_isActive v = Some True
               then None
               else Some ''Student or vehicle is inactive''))"

section \<open>Lookups as searches of a list\<close>

lemma find_as_filter: "find P xs = (case filter P xs of [] \<Rightarrow> None | x # _ \<Rightarrow> Some x)"
  by (induction xs) auto

lemma case_take_1: "(case take 1 xs of [] \<Rightarrow> a | x # _ \<Rightarrow> f x) = (case xs of [] \<Rightarrow> a | x # _ \<Rightarrow> f x)"
  by (cases xs) auto

lemma leftJoin_Cons:
  "leftJoin (l # ls) rs on =
     (case filter (on l) rs of [] \<Rightarrow> [(l, None)] | ms \<Rightarrow> map (\<lambda>r. (l, Some r)) ms)
       @ leftJoin ls rs on"
  by (simp add: leftJoin_def)

lemma first_joined_row:
  "(case filter (\<lambda>row. P (fst row)) (leftJoin ls rs on) of
      [] \<Rightarrow> None | row # _ \<Rightarrow> Some (f (fst row) (snd row)))
   = (case find P ls of None \<Rightarrow> None | Some l \<Rightarrow> Some (f l (find (on l) rs)))"
proof (induction ls)
  case Nil
  show ?case by (simp add: leftJoin_def)
next
  case (Cons l ls)
  show ?case
  proof (cases "P l")
    case True
    then show ?thesis
      by (cases "filter (on l) rs") (simp_all add: leftJoin_Cons find_as_filter [of "on l"])
  next
    case False
    then have "filter (\<lambda>row. P (fst row))
                 (case filter (on l) rs of [] \<Rightarrow> [(l, None)] | ms \<Rightarrow> map (\<lambda>r. (l, Some r)) ms) = []"
      by (cases "filter (on l) rs") (auto simp: filter_empty_conv)
    with False Cons show ?thesis
      by (simp add: leftJoin_Cons)
  qed
qed

lemma DrizzleStorage_getStudentByStudentId_find:
  "DrizzleStorage_getStudentByStudentId db studentId =
     (case find (\<lambda>s. Student_studentId s = studentId) (students_table db) of
        None \<Rightarrow> None
      | Some s \<Rightarrow> Some (spread_vehicle s
                          (find (\<lambda>v. Vehicle_studentId v = Student_id s) (vehicles_table db))))"
proof -
  have flip: "(\<lambda>v. Student_id s = Vehicle_studentId v) = (\<lambda>v. Vehicle_studentId v = Student_id s)"
    for s :: Student
    by auto
  show ?thesis
    unfolding DrizzleStorage_getStudentByStudentId_def Let_def case_take_1
    using first_joined_row [where P = "\<lambda>s. Student_studentId s = studentId"
        and f = spread_vehicle and on = "\<lambda>s v. Student_id s = Vehicle_studentId v"
        and ls = "students_table db" and rs = "vehicles_table db"]
    by (simp only: flip)
qed

lemma DrizzleStorage_getVehicleByPlate_find:
  "DrizzleStorage_getVehicleByPlate db plateNumber =
     find (\<lambda>v. Vehicle_plateNumber v = plateNumber) (vehicles_table db)"
  unfolding DrizzleStorage_getVehicleByPlate_def case_take_1
  by (simp add: find_as_filter)

lemma MemoryStorage_getStudentByStudentId_find:
  "MemoryStorage_getStudentByStudentId this (Some studentId) =
     (case find (\<lambda>s. Student_studentId s = studentId) (Map_values (students this)) of
        None \<Rightarrow> None
      | Some s \<Rightarrow> Some (spread_vehicle s
                          (find (\<lambda>v. Vehicle_studentId v = Student_id s) (Map_values (vehicles this)))))"
  by (simp add: MemoryStorage_getStudentByStudentId_def)

lemma MemoryStorage_getVehicleByPlate_find:
  "MemoryStorage_getVehicleByPlate this (Some plateNumber) =
     find (\<lambda>v. Vehicle_plateNumber v = plateNumber) (Map_values (vehicles this))"
  by (simp add: MemoryStorage_getVehicleByPlate_def)

lemma spread_vehicle_simps [simp]:
  "Student_id (spread_vehicle s v) = Student_id s"
  "Student_isActive (spread_vehicle s v) = Student_isActive s"
  "Student_studentId (spread_vehicle s v) = Student_studentId s"
  "vehicle (spread_vehicle s v) = v"
  by (simp_all add: spread_vehicle_def)

lemma find_SomeD: "find P xs = Some x \<Longrightarrow> x \<in> set xs \<and> P x"
  by (induction xs) (auto split: if_splits)

lemma truthy_flag_iff: "truthy_flag b \<longleftrightarrow> b = Some True"
  by (cases b) (auto simp: truthy_flag_def)

section \<open>The map operations\<close>

lemma Map_get_Map_set: "Map_get (Map_set m k v) k' = (if k' = k then Some v else Map_get m k')"
  by (induction m) (auto simp: Map_get_def)


lemma Map_keys_Map_set:
  "Map_keys (Map_set m k v) = (if k \<in> set (Map_keys m) then Map_keys m else Map_keys m @ [k])"
  by (induction m) (force simp: Map_keys_def)+

lemma Map_get_None_iff: "Map_get m k = None \<longleftrightarrow> k \<notin> set (Map_keys m)"
  by (simp add: Map_get_def Map_keys_def map_of_eq_None_iff)

section \<open>What a handler that answers has done\<close>

lemma verify_access_Json:
  assumes "verify_access storage st body = (Json rep, st', calls)"
  shows "\<exists>studentId plateNumber gateLocation r st1 log st2.
           body_studentId body = Some studentId \<and> studentId \<noteq> []
         \<and> body_plateNumber body = Some plateNumber \<and> plateNumber \<noteq> []
         \<and> body_gateLocation body = Some gateLocation \<and> gateLocation \<noteq> []
         \<and> verifyStudentAndVehicle storage st studentId plateNumber = (Inr r, st1)
         \<and> createAccessLog storage st1 (verify_access_logInput r plateNumber gateLocation)
             = (Inr log, st2)
         \<and> rep = VerifyAccessReply
                   (spread_accessLog r
                      (spread_details log (Verification_student r) (Verification_vehicle r)))
         \<and> (if Verification_isValid r
             then st' = st2
                \<and> calls = [Call_verifyStudentAndVehicle studentId plateNumber,
                            Call_createAccessLog (verify_access_logInput r plateNumber gateLocation),
                            Call_broadcast
                              \<lparr> message_type = ''access_log'',
                                message_data = AccessLogData
                                  (spread_details log (Verification_student r)
                                     (Verification_vehicle r)) \<rparr>]
             else \<exists>alert.
                    createAlert storage st2
                      (verify_access_alertInput r studentId plateNumber gateLocation)
                      = (Inr alert, st')
                  \<and> calls = [Call_verifyStudentAndVehicle studentId plateNumber,
                              Call_createAccessLog
                                (verify_access_logInput r plateNumber gateLocation),
                              Call_createAlert
                                (verify_access_alertInput r studentId plateNumber gateLocation),
                              Call_broadcast
                                \<lparr> message_type = ''new_alert'', message_data = AlertData alert \<rparr>,
                              Call_broadcast
                                \<lparr> message_type = ''access_log'',
                                  message_data = AccessLogData
                                    (spread_details log (Verification_student r)
                                       (Verification_vehicle r)) \<rparr>])"
  using assms
  by (auto simp: verify_access_def verify_access_checked_def falsy_def Let_def
      split: if_splits prod.splits sum.splits option.splits)


lemma grant_access_no_alert:
  "grant_access storage st body = (resp, st', calls) \<Longrightarrow> createAlert_calls calls = []"
  by (auto simp: grant_access_def Let_def split: prod.splits sum.splits)

lemma deny_access_lookup_calls:
  "deny_access_student storage st body = (res, calls) \<Longrightarrow> createAlert_calls calls = []"
  "deny_access_vehicle storage st body = (res', calls') \<Longrightarrow> createAlert_calls calls' = []"
  by (auto simp: deny_access_student_def deny_access_vehicle_def split: if_splits)

lemma createAlert_calls_append:
  "createAlert_calls (xs @ ys) = createAlert_calls xs @ createAlert_calls ys"
  by (induction xs rule: createAlert_calls.induct) auto

lemma deny_access_one_alert:
  assumes "deny_access storage st body = (Json rep, st', calls)"
  shows "createAlert_calls calls = [deny_access_alertInput body]"
  using assms
  by (auto simp: deny_access_def Let_def createAlert_calls_append deny_access_lookup_calls
      split: prod.splits sum.splits)

section \<open>The handlers on the in-memory store\<close>

lemma MemoryStorage_IStorage_simps [simp]:
  "getStudentByStudentId MemoryStorage_IStorage st studentId =
     (Inr (MemoryStorage_getStudentByStudentId (store st) studentId), st)"
  "getVehicleByPlate MemoryStorage_IStorage st plateNumber =
     (Inr (MemoryStorage_getVehicleByPlate (store st) plateNumber), st)"
  "createAccessLog MemoryStorage_IStorage st logInput =
     (Inr (fst (MemoryStorage_createAccessLog st logInput)),
      snd (MemoryStorage_createAccessLog st logInput))"
  "createAlert MemoryStorage_IStorage st alertInput =
     (Inr (fst (MemoryStorage_createAlert st alertInput)),
      snd (MemoryStorage_createAlert st alertInput))"
  "markAlertAsRead MemoryStorage_IStorage st alertId =
     (Inr (), st\<lparr> store := MemoryStorage_markAlertAsRead (store st) alertId \<rparr>)"
  "verifyStudentAndVehicle MemoryStorage_IStorage st sid plate =
     (Inr (MemoryStorage_verifyStudentAndVehicle (store st) sid plate), st)"
  by (simp_all add: MemoryStorage_IStorage_def split: prod.splits)

lemma createAccessLog_state:
  "snd (MemoryStorage_createAccessLog st logInput) =
     st\<lparr> store := (store st)\<lparr> accessLogs :=
             Map_set (accessLogs (store st)) (uuids (world st) (uuid_calls (world st)))
               (fst (MemoryStorage_createAccessLog st logInput)) \<rparr>,
         world := (world st)\<lparr> uuid_calls := Suc (uuid_calls (world st)) \<rparr> \<rparr>"
  by (simp add: MemoryStorage_createAccessLog_def generate_id_def Let_def)

lemma createAccessLog_entry:
  "fst (MemoryStorage_createAccessLog st logInput) =
     \<lparr> AccessLog_id = uuids (world st) (uuid_calls (world st)),
       AccessLog_studentId = InsertAccessLog_studentId logInput,
       AccessLog_vehicleId = InsertAccessLog_vehicleId logInput,
       AccessLog_plateNumber = InsertAccessLog_plateNumber logInput,
       AccessLog_gateLocation = InsertAccessLog_gateLocation logInput,
       AccessLog_accessStatus = InsertAccessLog_accessStatus logInput,
       AccessLog_reason = InsertAccessLog_reason logInput,
       AccessLog_timestamp = Some (clock (world st)),
       AccessLog_metadata =
         (case InsertAccessLog_metadata logInput of None \<Rightarrow> JNull | Some j \<Rightarrow> j) \<rparr>"
  by (simp add: MemoryStorage_createAccessLog_def generate_id_def Let_def)

lemma createAlert_state:
  "snd (MemoryStorage_createAlert st alertInput) =
     st\<lparr> store := (store st)\<lparr> alerts :=
             Map_set (alerts (store st)) (uuids (world st) (uuid_calls (world st)))
               (fst (MemoryStorage_createAlert st alertInput)) \<rparr>,
         world := (world st)\<lparr> uuid_calls := Suc (uuid_calls (world st)) \<rparr> \<rparr>"
  by (simp add: MemoryStorage_createAlert_def generate_id_def Let_def)

lemma createAlert_entry:
  "fst (MemoryStorage_createAlert st alertInput) =
     \<lparr> Alert_id = uuids (world st) (uuid_calls (world st)),
       Alert_type = InsertAlert_type alertInput,
       Alert_severity = InsertAlert_severity alertInput,
       Alert_title = InsertAlert_title alertInput,
       Alert_description = InsertAlert_description alertInput,
       Alert_gateLocation = InsertAlert_gateLocation alertInput,
       Alert_metadata = (case InsertAlert_metadata alertInput of None \<Rightarrow> JNull | Some j \<Rightarrow> j),
       Alert_isRead = (case InsertAlert_isRead alertInput of None \<Rightarrow> Some False | Some b \<Rightarrow> b),
       Alert_createdAt = Some (clock (world st)) \<rparr>"
  by (simp add: MemoryStorage_createAlert_def generate_id_def Let_def)

lemma verify_access_checked_memory:
  "verify_access_checked MemoryStorage_IStorage st studentId plateNumber gateLocation =
     (let r = MemoryStorage_verifyStudentAndVehicle (store st) studentId plateNumber;
          logInput = verify_access_logInput r plateNumber gateLocation;
          entry = fst (MemoryStorage_createAccessLog st logInput);
          st2 = snd (MemoryStorage_createAccessLog st logInput);
          details = spread_details entry (Verification_student r) (Verification_vehicle r);
          alertInput = verify_access_alertInput r studentId plateNumber gateLocation;
          alert = fst (MemoryStorage_createAlert st2 alertInput);
          st3 = snd (MemoryStorage_createAlert st2 alertInput)
      in if Verification_isValid r
         then (Json (VerifyAccessReply (spread_accessLog r details)), st2,
               [Call_verifyStudentAndVehicle studentId plateNumber,
                Call_createAccessLog logInput,
                Call_broadcast \<lparr> message_type = ''access_log'',
                                 message_data = AccessLogData details \<rparr>])
         else (Json (VerifyAccessReply (spread_accessLog r details)), st3,
               [Call_verifyStudentAndVehicle studentId plateNumber,
                Call_createAccessLog logInput,
                Call_createAlert alertInput,
                Call_broadcast \<lparr> message_type = ''new_alert'', message_data = AlertData alert \<rparr>,
                Call_broadcast \<lparr> message_type = ''access_log'',
                                 message_data = AccessLogData details \<rparr>]))"
  by (simp add: verify_access_checked_def Let_def)

lemmas scenario_defs = scenario_state_def scenario_store_def scenario_world_def
  scenario_student_def scenario_vehicle_def scenario_body_def unregistered_body_def
  scenario_db_def empty_store_def stale_log_def granted_log_def denied_log_def stats_store_def
  stats_db_def first_alert_def second_alert_def alerts_store_def scenario_clients_def
  throws_unless_open_def type_only_def scenario_message_def overlap_store_def
  manual_deny_body_def second_student_def second_vehicle_def two_students_store_def
  reversed_db_def repeating_world_def repeating_state_def empty_gate_body_def

lemmas verify_defs = MemoryStorage_verifyStudentAndVehicle_def
  MemoryStorage_getStudentByStudentId_def MemoryStorage_getVehicleByPlate_def Map_values_def
  truthy_flag_def spread_vehicle_def

section \<open>Counting the logs of a day\<close>

lemma length_two_way_split:
  assumes "\<forall>x \<in> set xs. P x \<or> Q x" and "\<And>x. \<not> (P x \<and> Q x)"
  shows "length xs = length (filter P xs) + length (filter Q xs)"
  using assms(1)
proof (induction xs)
  case Nil
  show ?case by simp
next
  case (Cons x xs)
  then have "length xs = length (filter P xs) + length (filter Q xs)" by simp
  moreover from Cons.prems have "P x \<or> Q x" by simp
  ultimately show ?case using assms(2) [of x] by auto
qed

lemma status_split:
  fixes ls :: "AccessLog list"
  assumes "\<forall>l \<in> set ls. AccessLog_accessStatus l = ''granted'' \<or> AccessLog_accessStatus l = ''denied''"
  shows "length (filter today ls) =
         length (filter (\<lambda>l. AccessLog_accessStatus l = ''granted'') (filter today ls))
         + length (filter (\<lambda>l. AccessLog_accessStatus l = ''denied'') (filter today ls))"
proof -
  have "\<forall>l \<in> set (filter today ls).
          AccessLog_accessStatus l = ''granted'' \<or> AccessLog_accessStatus l = ''denied''"
    using assms by simp
  moreover have "\<not> (AccessLog_accessStatus l = ''granted'' \<and> AccessLog_accessStatus l = ''denied'')"
    for l :: AccessLog
    by auto
  ultimately show ?thesis
    by (rule length_two_way_split
          [where P = "\<lambda>l. AccessLog_accessStatus l = ''granted''"
             and Q = "\<lambda>l. AccessLog_accessStatus l = ''denied''"])
qed

section \<open>Marking an alert as read\<close>

lemma Map_set_nth:
  "k \<in> set (Map_keys m) \<Longrightarrow> i < length m \<Longrightarrow>
     fst (Map_set m k v ! i) = fst (m ! i)
     \<and> (fst (m ! i) \<noteq> k \<longrightarrow> snd (Map_set m k v ! i) = snd (m ! i))"
proof (induction m arbitrary: i)
  case Nil
  then show ?case by simp
next
  case (Cons p m)
  show ?case
  proof (cases "fst p = k")
    case True
    then show ?thesis by (cases p; cases i) auto
  next
    case False
    with Cons.prems have "k \<in> set (Map_keys m)" by (auto simp: Map_keys_def)
    with Cons False show ?thesis by (cases p; cases i) auto
  qed
qed

lemma markAlertAsRead_absent:
  "Map_get (alerts this) alertId = None \<Longrightarrow> MemoryStorage_markAlertAsRead this alertId = this"
  by (simp add: MemoryStorage_markAlertAsRead_def)

lemma markAlertAsRead_present:
  "Map_get (alerts this) alertId = Some a \<Longrightarrow>
     MemoryStorage_markAlertAsRead this alertId =
       this\<lparr> alerts := Map_set (alerts this) alertId (a\<lparr> Alert_isRead := Some True \<rparr>) \<rparr>"
  by (simp add: MemoryStorage_markAlertAsRead_def)

lemma markAlertAsRead_other_maps:
  "students (MemoryStorage_markAlertAsRead this alertId) = students this"
  "vehicles (MemoryStorage_markAlertAsRead this alertId) = vehicles this"
  "accessLogs (MemoryStorage_markAlertAsRead this alertId) = accessLogs this"
  by (simp_all add: MemoryStorage_markAlertAsRead_def split: option.splits)

lemma markAlertAsRead_keys:
  "Map_keys (alerts (MemoryStorage_markAlertAsRead this alertId)) = Map_keys (alerts this)"
  by (auto simp: MemoryStorage_markAlertAsRead_def Map_keys_Map_set Map_get_None_iff [symmetric]
      split: option.splits)

lemma markAlertAsRead_positions:
  assumes "i < length (alerts this)"
  shows "fst (alerts (MemoryStorage_markAlertAsRead this alertId) ! i) = fst (alerts this ! i)
         \<and> (fst (alerts this ! i) \<noteq> alertId \<longrightarrow>
              snd (alerts (MemoryStorage_markAlertAsRead this alertId) ! i) = snd (alerts this ! i))"
proof (cases "Map_get (alerts this) alertId")
  case None
  then show ?thesis by (simp add: markAlertAsRead_absent)
next
  case (Some a)
  then have "alertId \<in> set (Map_keys (alerts this))"
    using Map_get_None_iff [of "alerts this" alertId] by auto
  from Map_set_nth [OF this assms] Some show ?thesis
    by (simp add: markAlertAsRead_present)
qed

lemma markAlertAsRead_lookup:
  "Map_get (alerts (MemoryStorage_markAlertAsRead this alertId)) k =
     (if k = alertId then map_option (\<lambda>a. a\<lparr> Alert_isRead := Some True \<rparr>) (Map_get (alerts this) k)
      else Map_get (alerts this) k)"
  by (auto simp: MemoryStorage_markAlertAsRead_def Map_get_Map_set split: option.splits)

section \<open>The loop over the connected clients\<close>

lemma forEach_client_open:
  assumes "\<forall>client \<in> set connectedClients.
             readyState client = OPEN \<longrightarrow> \<not> send_throws client messageStr"
  shows "forEach_client send_throws connectedClients messageStr =
           (map (\<lambda>client. Send client messageStr)
              (filter (\<lambda>client. readyState client = OPEN) connectedClients), Returned)"
  using assms by (induction connectedClients) auto

section \<open>The verdict of both implementations\<close>

lemma MemoryStorage_first_failing_check:
  "first_failing_check (Map_values (students this)) (Map_values (vehicles this))
     studentId plateNumber (MemoryStorage_verifyStudentAndVehicle this studentId plateNumber)"
  unfolding MemoryStorage_verifyStudentAndVehicle_def
    MemoryStorage_getStudentByStudentId_find MemoryStorage_getVehicleByPlate_find Let_def
  by (auto simp: truthy_flag_iff find_None_iff split: option.splits dest: find_SomeD)

lemma DrizzleStorage_first_failing_check:
  "first_failing_check (students_table db) (vehicles_table db)
     studentId plateNumber (DrizzleStorage_verifyStudentAndVehicle db studentId plateNumber)"
  unfolding DrizzleStorage_verifyStudentAndVehicle_def
    DrizzleStorage_getStudentByStudentId_find DrizzleStorage_getVehicleByPlate_find Let_def
  by (auto simp: truthy_flag_iff find_None_iff split: option.splits dest: find_SomeD)

lemma MemoryStorage_reported_reason:
  "Verification_reason (MemoryStorage_verifyStudentAndVehicle this studentId plateNumber) =
     reported_reason
       (find (\<lambda>s. Student_studentId s = studentId) (Map_values (students this)))
       (find (\<lambda>v. Vehicle_plateNumber v = plateNumber) (Map_values (vehicles this)))"
  unfolding MemoryStorage_verifyStudentAndVehicle_def
    MemoryStorage_getStudentByStudentId_find MemoryStorage_getVehicleByPlate_find Let_def
  by (simp add: truthy_flag_iff split: option.splits)

lemma DrizzleStorage_reported_reason:
  "Verification_reason (DrizzleStorage_verifyStudentAndVehicle db studentId plateNumber) =
     reported_reason
       (find (\<lambda>s. Student_studentId s = studentId) (students_table db))
       (find (\<lambda>v. Vehicle_plateNumber v = plateNumber) (vehicles_table db))"
  unfolding DrizzleStorage_verifyStudentAndVehicle_def
    DrizzleStorage_getStudentByStudentId_find DrizzleStorage_getVehicleByPlate_find Let_def
  by (simp add: truthy_flag_iff split: option.splits)

section \<open>The state the handlers leave in the in-memory store\<close>

lemma not_falsy_iff: "\<not> falsy x \<longleftrightarrow> (\<exists>s. x = Some s \<and> s \<noteq> [])"
  by (cases x) (auto simp: falsy_def)

text \<open>The state that the verify handler leaves in the in-memory store.\<close>

lemma verify_access_checked_memory_state:
  fixes st :: MemoryState and studentId plateNumber gateLocation :: string
  defines "r \<equiv> MemoryStorage_verifyStudentAndVehicle (store st) studentId plateNumber"
  defines "entry \<equiv> fst (MemoryStorage_createAccessLog st
                            (verify_access_logInput r plateNumber gateLocation))"
  defines "st2 \<equiv> snd (MemoryStorage_createAccessLog st
                          (verify_access_logInput r plateNumber gateLocation))"
  defines "alert \<equiv> fst (MemoryStorage_createAlert st2
                            (verify_access_alertInput r studentId plateNumber gateLocation))"
  assumes run: "verify_access_checked MemoryStorage_IStorage st studentId plateNumber gateLocation
                  = (resp, st', calls)"
  shows "resp = Json (VerifyAccessReply
                   (spread_accessLog r
                      (spread_details entry (Verification_student r) (Verification_vehicle r))))"
    and "students (store st') = students (store st)"
    and "vehicles (store st') = vehicles (store st)"
    and "accessLogs (store st') =
           Map_set (accessLogs (store st)) (uuids (world st) (uuid_calls (world st))) entry"
    and "alerts (store st') =
           (if Verification_isValid r then alerts (store st)
            else Map_set (alerts (store st)) (uuids (world st) (Suc (uuid_calls (world st)))) alert)"
    and "uuids (world st') = uuids (world st)"
    and "clock (world st') = clock (world st)"
    and "uuid_calls (world st') =
           (if Verification_isValid r then Suc (uuid_calls (world st))
            else Suc (Suc (uuid_calls (world st))))"
  using run
  unfolding verify_access_checked_memory Let_def r_def entry_def st2_def alert_def
  by (auto simp: createAccessLog_state createAlert_state split: if_splits)


lemma verify_access_memory_checked:
  assumes "verify_access MemoryStorage_IStorage st body = (Json rep, st', calls)"
  shows "\<exists>studentId plateNumber gateLocation.
           body_studentId body = Some studentId \<and> body_plateNumber body = Some plateNumber
         \<and> body_gateLocation body = Some gateLocation
         \<and> verify_access_checked MemoryStorage_IStorage st studentId plateNumber gateLocation
             = (Json rep, st', calls)"
  using assms
  by (auto simp: verify_access_def not_falsy_iff split: if_splits)

lemma grant_access_memory_alerts:
  "grant_access MemoryStorage_IStorage st body = (resp, st', calls) \<Longrightarrow>
     alerts (store st') = alerts (store st)"
  by (auto simp: grant_access_def Let_def createAccessLog_state)

lemma deny_access_memory_alerts:
  assumes "deny_access MemoryStorage_IStorage st body = (resp, st', calls)"
  shows "\<exists>details alert.
           resp = Json (DenyAccessReply True details alert)
         \<and> alerts (store st') = Map_set (alerts (store st)) (Alert_id alert) alert"
  using assms
  by (auto simp: deny_access_def deny_access_student_def deny_access_vehicle_def Let_def
      createAccessLog_state createAlert_state createAlert_entry split: if_splits)

lemma verify_access_memory_alerts:
  assumes "verify_access MemoryStorage_IStorage st body = (Json rep, st', calls)"
  shows "\<exists>studentId plateNumber.
           body_studentId body = Some studentId \<and> body_plateNumber body = Some plateNumber
         \<and> (if Verification_isValid
                  (MemoryStorage_verifyStudentAndVehicle (store st) studentId plateNumber)
             then alerts (store st') = alerts (store st)
             else \<exists>alert. alerts (store st')
                           = Map_set (alerts (store st)) (Alert_id alert) alert)"
proof -
  from verify_access_memory_checked [OF assms]
  obtain studentId plateNumber gateLocation
    where sid: "body_studentId body = Some studentId"
      and plate: "body_plateNumber body = Some plateNumber"
      and run: "verify_access_checked MemoryStorage_IStorage st studentId plateNumber gateLocation
                = (Json rep, st', calls)"
    by blast
  let ?r = "MemoryStorage_verifyStudentAndVehicle (store st) studentId plateNumber"
  let ?alert = "fst (MemoryStorage_createAlert
                   (snd (MemoryStorage_createAccessLog st
                           (verify_access_logInput ?r plateNumber gateLocation)))
                   (verify_access_alertInput ?r studentId plateNumber gateLocation))"
  have id: "Alert_id ?alert = uuids (world st) (Suc (uuid_calls (world st)))"
    by (simp add: createAlert_entry createAccessLog_state)
  show ?thesis
  proof (cases "Verification_isValid ?r")
    case True
    with verify_access_checked_memory_state(5) [OF run]
    have "alerts (store st') = alerts (store st)" by simp
    with True sid plate show ?thesis by simp
  next
    case False
    with verify_access_checked_memory_state(5) [OF run]
    have "alerts (store st')
          = Map_set (alerts (store st)) (uuids (world st) (Suc (uuid_calls (world st)))) ?alert"
      by simp
    then have "alerts (store st') = Map_set (alerts (store st)) (Alert_id ?alert) ?alert"
      by (simp only: id)
    then have "\<exists>alert. alerts (store st') = Map_set (alerts (store st)) (Alert_id alert) alert"
      by (rule exI)
    with False sid plate show ?thesis by simp
  qed
qed

lemmas handler_defs = verify_access_def verify_access_checked_memory grant_access_def
  deny_access_def deny_access_student_def deny_access_vehicle_def falsy_def Let_def
  createAccessLog_state createAccessLog_entry createAlert_state createAlert_entry

section \<open>The access log of a verification\<close>

lemma createAccessLog_calls_of_verify:
  assumes "verify_access storage st body = (Json rep, st', calls)"
  shows "\<exists>studentId plateNumber gateLocation r st1 entry st2.
           body_studentId body = Some studentId \<and> body_plateNumber body = Some plateNumber
         \<and> body_gateLocation body = Some gateLocation
         \<and> verifyStudentAndVehicle storage st studentId plateNumber = (Inr r, st1)
         \<and> createAccessLog_calls calls = [verify_access_logInput r plateNumber gateLocation]
         \<and> createAccessLog storage st1 (verify_access_logInput r plateNumber gateLocation)
             = (Inr entry, st2)"
proof -
  from verify_access_Json [OF assms]
  obtain studentId plateNumber gateLocation r st1 entry st2
    where fields: "body_studentId body = Some studentId" "body_plateNumber body = Some plateNumber"
        "body_gateLocation body = Some gateLocation"
      and verdict: "verifyStudentAndVehicle storage st studentId plateNumber = (Inr r, st1)"
      and created: "createAccessLog storage st1
                      (verify_access_logInput r plateNumber gateLocation) = (Inr entry, st2)"
      and calls: "if Verification_isValid r
             then st' = st2
                \<and> calls = [Call_verifyStudentAndVehicle studentId plateNumber,
                            Call_createAccessLog (verify_access_logInput r plateNumber gateLocation),
                            Call_broadcast
                              \<lparr> message_type = ''access_log'',
                                message_data = AccessLogData
                                  (spread_details entry (Verification_student r)
                                     (Verification_vehicle r)) \<rparr>]
             else \<exists>alert.
                    createAlert storage st2
                      (verify_access_alertInput r studentId plateNumber gateLocation)
                      = (Inr alert, st')
                  \<and> calls = [Call_verifyStudentAndVehicle studentId plateNumber,
                              Call_createAccessLog
                                (verify_access_logInput r plateNumber gateLocation),
                              Call_createAlert
                                (verify_access_alertInput r studentId plateNumber gateLocation),
                              Call_broadcast
                                \<lparr> message_type = ''new_alert'', message_data = AlertData alert \<rparr>,
                              Call_broadcast
                                \<lparr> message_type = ''access_log'',
                                  message_data = AccessLogData
                                    (spread_details entry (Verification_student r)
                                       (Verification_vehicle r)) \<rparr>]"
    by blast
  from calls have "createAccessLog_calls calls
                   = [verify_access_logInput r plateNumber gateLocation]"
    by (auto split: if_splits)
  with fields verdict created show ?thesis by blast
qed

lemma verify_access_logInput_fields:
  "InsertAccessLog_accessStatus (verify_access_logInput r plateNumber gateLocation) = ''granted''
     \<longleftrightarrow> Verification_isValid r"
  "InsertAccessLog_accessStatus (verify_access_logInput r plateNumber gateLocation) = ''denied''
     \<longleftrightarrow> \<not> Verification_isValid r"
  "InsertAccessLog_plateNumber (verify_access_logInput r plateNumber gateLocation)
     = Some plateNumber"
  "InsertAccessLog_gateLocation (verify_access_logInput r plateNumber gateLocation)
     = Some gateLocation"
  "InsertAccessLog_reason (verify_access_logInput r plateNumber gateLocation)
     = Verification_reason r"
  "InsertAccessLog_metadata (verify_access_logInput r plateNumber gateLocation)
     = Some (JObj [(''confidence'', JNum 100)])"
  by (simp_all add: verify_access_logInput_def)

lemma MemoryStorage_valid_no_reason:
  "Verification_isValid (MemoryStorage_verifyStudentAndVehicle this studentId plateNumber) \<Longrightarrow>
     Verification_reason (MemoryStorage_verifyStudentAndVehicle this studentId plateNumber) = None"
  using MemoryStorage_first_failing_check [of this studentId plateNumber] by blast

lemma verify_access_memory_entry:
  assumes "verify_access MemoryStorage_IStorage mst body = (Json rep, mst', calls)"
  shows "\<exists>studentId plateNumber gateLocation entry.
           body_studentId body = Some studentId \<and> body_plateNumber body = Some plateNumber
         \<and> body_gateLocation body = Some gateLocation
         \<and> accessLogs (store mst')
             = Map_set (accessLogs (store mst)) (AccessLog_id entry) entry
         \<and> (\<exists>v. rep = VerifyAccessReply v \<and> AccessLog_id (accessLog v) = AccessLog_id entry)
         \<and> (AccessLog_accessStatus entry = ''granted'' \<longleftrightarrow>
              Verification_isValid
                (MemoryStorage_verifyStudentAndVehicle (store mst) studentId plateNumber))
         \<and> (AccessLog_accessStatus entry = ''denied'' \<longleftrightarrow>
              \<not> Verification_isValid
                  (MemoryStorage_verifyStudentAndVehicle (store mst) studentId plateNumber))
         \<and> AccessLog_plateNumber entry = Some plateNumber
         \<and> AccessLog_gateLocation entry = Some gateLocation
         \<and> AccessLog_reason entry
             = Verification_reason
                 (MemoryStorage_verifyStudentAndVehicle (store mst) studentId plateNumber)
         \<and> (Verification_isValid
                (MemoryStorage_verifyStudentAndVehicle (store mst) studentId plateNumber)
              \<longrightarrow> AccessLog_reason entry = None)
         \<and> AccessLog_metadata entry = JObj [(''confidence'', JNum 100)]"
proof -
  from verify_access_memory_checked [OF assms]
  obtain studentId plateNumber gateLocation
    where fields: "body_studentId body = Some studentId" "body_plateNumber body = Some plateNumber"
        "body_gateLocation body = Some gateLocation"
      and run: "verify_access_checked MemoryStorage_IStorage mst studentId plateNumber gateLocation
                = (Json rep, mst', calls)"
    by blast
  let ?r = "MemoryStorage_verifyStudentAndVehicle (store mst) studentId plateNumber"
  let ?entry = "fst (MemoryStorage_createAccessLog mst
                       (verify_access_logInput ?r plateNumber gateLocation))"
  have id: "AccessLog_id ?entry = uuids (world mst) (uuid_calls (world mst))"
    by (simp add: createAccessLog_entry)
  from verify_access_checked_memory_state(4) [OF run]
  have logs: "accessLogs (store mst')
              = Map_set (accessLogs (store mst)) (AccessLog_id ?entry) ?entry"
    by (simp only: id)
  from verify_access_checked_memory_state(1) [OF run]
  have reply: "\<exists>v. rep = VerifyAccessReply v \<and> AccessLog_id (accessLog v) = AccessLog_id ?entry"
    by (simp add: spread_accessLog_def spread_details_def)
  have status: "AccessLog_accessStatus ?entry = ''granted'' \<longleftrightarrow> Verification_isValid ?r"
      "AccessLog_accessStatus ?entry = ''denied'' \<longleftrightarrow> \<not> Verification_isValid ?r"
    by (simp_all add: createAccessLog_entry verify_access_logInput_def)
  have rest: "AccessLog_plateNumber ?entry = Some plateNumber"
      "AccessLog_gateLocation ?entry = Some gateLocation"
      "AccessLog_reason ?entry = Verification_reason ?r"
      "AccessLog_metadata ?entry = JObj [(''confidence'', JNum 100)]"
    by (simp_all add: createAccessLog_entry verify_access_logInput_def)
  have absent: "Verification_isValid ?r \<longrightarrow> AccessLog_reason ?entry = None"
    by (simp add: rest(3) MemoryStorage_valid_no_reason)
  from fields logs reply status rest absent show ?thesis
    by (intro exI [of _ studentId] exI [of _ plateNumber] exI [of _ gateLocation]
        exI [of _ ?entry] conjI)
qed



section \<open>The order of the rows of a table\<close>

lemma find_unique_match:
  assumes unique: "\<forall>x \<in> set xs. \<forall>y \<in> set xs. P x \<longrightarrow> P y \<longrightarrow> x = y"
    and same: "set ys = set xs"
  shows "find P ys = find P xs"
proof (cases "find P xs")
  case None
  then have "\<not> (\<exists>x \<in> set xs. P x)" by (simp add: find_None_iff)
  with same have "find P ys = None" by (simp add: find_None_iff)
  with None show ?thesis by simp
next
  case (Some x)
  then have x: "x \<in> set xs" "P x" by (auto dest: find_SomeD)
  with same have "find P ys \<noteq> None" by (auto simp: find_None_iff)
  then obtain y where y: "find P ys = Some y" by auto
  then have "y \<in> set ys" "P y" by (auto dest: find_SomeD)
  with same x unique have "y = x" by blast
  with y Some show ?thesis by simp
qed

lemma truncate_spread_vehicle: "Student.truncate (spread_vehicle s v) = s"
  by (simp add: spread_vehicle_def Student.truncate_def)

lemma verify_independent_of_row_order:
  assumes students: "set (students_table db) = set (Map_values (students this))"
    and vehicles: "set (vehicles_table db) = set (Map_values (vehicles this))"
    and unique_studentId:
      "\<forall>s \<in> set (Map_values (students this)). \<forall>s' \<in> set (Map_values (students this)).
         Student_studentId s = Student_studentId s' \<longrightarrow> s = s'"
    and unique_plateNumber:
      "\<forall>v \<in> set (Map_values (vehicles this)). \<forall>v' \<in> set (Map_values (vehicles this)).
         Vehicle_plateNumber v = Vehicle_plateNumber v' \<longrightarrow> v = v'"
  shows "Verification_isValid (DrizzleStorage_verifyStudentAndVehicle db studentId plateNumber)
         = Verification_isValid (MemoryStorage_verifyStudentAndVehicle this studentId plateNumber)"
    and "Verification_reason (DrizzleStorage_verifyStudentAndVehicle db studentId plateNumber)
         = Verification_reason (MemoryStorage_verifyStudentAndVehicle this studentId plateNumber)"
    and "Verification_vehicle (DrizzleStorage_verifyStudentAndVehicle db studentId plateNumber)
         = Verification_vehicle (MemoryStorage_verifyStudentAndVehicle this studentId plateNumber)"
    and "map_option Student.truncate
           (Verification_student (DrizzleStorage_verifyStudentAndVehicle db studentId plateNumber))
         = map_option Student.truncate
           (Verification_student (MemoryStorage_verifyStudentAndVehicle this studentId plateNumber))"
proof -
  have s: "find (\<lambda>s. Student_studentId s = studentId) (students_table db)
           = find (\<lambda>s. Student_studentId s = studentId) (Map_values (students this))"
    using unique_studentId students by (intro find_unique_match) auto
  have v: "find (\<lambda>v. Vehicle_plateNumber v = plateNumber) (vehicles_table db)
           = find (\<lambda>v. Vehicle_plateNumber v = plateNumber) (Map_values (vehicles this))"
    using unique_plateNumber vehicles by (intro find_unique_match) auto
  show "Verification_isValid (DrizzleStorage_verifyStudentAndVehicle db studentId plateNumber)
         = Verification_isValid (MemoryStorage_verifyStudentAndVehicle this studentId plateNumber)"
    and "Verification_reason (DrizzleStorage_verifyStudentAndVehicle db studentId plateNumber)
         = Verification_reason (MemoryStorage_verifyStudentAndVehicle this studentId plateNumber)"
    and "Verification_vehicle (DrizzleStorage_verifyStudentAndVehicle db studentId plateNumber)
         = Verification_vehicle (MemoryStorage_verifyStudentAndVehicle this studentId plateNumber)"
    and "map_option Student.truncate
           (Verification_student (DrizzleStorage_verifyStudentAndVehicle db studentId plateNumber))
         = map_option Student.truncate
           (Verification_student (MemoryStorage_verifyStudentAndVehicle this studentId plateNumber))"
    unfolding DrizzleStorage_verifyStudentAndVehicle_def MemoryStorage_verifyStudentAndVehicle_def
      DrizzleStorage_getStudentByStudentId_find DrizzleStorage_getVehicleByPlate_find
      MemoryStorage_getStudentByStudentId_find MemoryStorage_getVehicleByPlate_find Let_def s v
    by (simp_all add: truncate_spread_vehicle split: option.splits)
qed

section \<open>The claims\<close>

text \<open>
  C7. The two storage implementations agree on verification. When the tables of the
  database hold the rows that the maps of the in-memory store hold, in the same order,
  \<open>verifyStudentAndVehicle\<close> returns the same result in both: the same resolved student
  (with the vehicle joined to it), the same resolved vehicle, the same validity flag and
  the same reason. When they hold the same rows in any order, and the content respects
  the unique constraints of the schema on \<open>student_id\<close> and \<open>plate_number\<close>, the two
  results have the same validity flag, the same reason, the same resolved vehicle and the
  same resolved student row.
\<close>

theorem storage_implementations_agree:
  "(students_table db = Map_values (students this)
      \<and> vehicles_table db = Map_values (vehicles this) \<longrightarrow>
    DrizzleStorage_verifyStudentAndVehicle db studentId plateNumber
    = MemoryStorage_verifyStudentAndVehicle this studentId plateNumber)
   \<and> (set (students_table db) = set (Map_values (students this))
      \<and> set (vehicles_table db) = set (Map_values (vehicles this))
      \<and> (\<forall>s \<in> set (Map_values (students this)). \<forall>s' \<in> set (Map_values (students this)).
            Student_studentId s = Student_studentId s' \<longrightarrow> s = s')
      \<and> (\<forall>v \<in> set (Map_values (vehicles this)). \<forall>v' \<in> set (Map_values (vehicles this)).
            Vehicle_plateNumber v = Vehicle_plateNumber v' \<longrightarrow> v = v') \<longrightarrow>
    Verification_isValid (DrizzleStorage_verifyStudentAndVehicle db studentId plateNumber)
    = Verification_isValid (MemoryStorage_verifyStudentAndVehicle this studentId plateNumber)
    \<and> Verification_reason (DrizzleStorage_verifyStudentAndVehicle db studentId plateNumber)
      = Verification_reason (MemoryStorage_verifyStudentAndVehicle this studentId plateNumber)
    \<and> Verification_vehicle (DrizzleStorage_verifyStudentAndVehicle db studentId plateNumber)
      = Verification_vehicle (MemoryStorage_verifyStudentAndVehicle this studentId plateNumber)
    \<and> map_option Student.truncate
        (Verification_student (DrizzleStorage_verifyStudentAndVehicle db studentId plateNumber))
      = map_option Student.truncate
        (Verification_student (MemoryStorage_verifyStudentAndVehicle this studentId plateNumber)))"
proof (intro conjI impI)
  assume "students_table db = Map_values (students this)
            \<and> vehicles_table db = Map_values (vehicles this)"
  then have rows: "students_table db = Map_values (students this)"
      "vehicles_table db = Map_values (vehicles this)"
    by simp_all
  show "DrizzleStorage_verifyStudentAndVehicle db studentId plateNumber
        = MemoryStorage_verifyStudentAndVehicle this studentId plateNumber"
    unfolding DrizzleStorage_verifyStudentAndVehicle_def MemoryStorage_verifyStudentAndVehicle_def
      DrizzleStorage_getStudentByStudentId_find DrizzleStorage_getVehicleByPlate_find
      MemoryStorage_getStudentByStudentId_find MemoryStorage_getVehicleByPlate_find rows
    by (rule refl)
next
  assume same: "set (students_table db) = set (Map_values (students this))
      \<and> set (vehicles_table db) = set (Map_values (vehicles this))
      \<and> (\<forall>s \<in> set (Map_values (students this)). \<forall>s' \<in> set (Map_values (students this)).
            Student_studentId s = Student_studentId s' \<longrightarrow> s = s')
      \<and> (\<forall>v \<in> set (Map_values (vehicles this)). \<forall>v' \<in> set (Map_values (vehicles this)).
            Vehicle_plateNumber v = Vehicle_plateNumber v' \<longrightarrow> v = v')"
  then have rows: "set (students_table db) = set (Map_values (students this))"
      "set (vehicles_table db) = set (Map_values (vehicles this))"
    and unique: "\<forall>s \<in> set (Map_values (students this)). \<forall>s' \<in> set (Map_values (students this)).
            Student_studentId s = Student_studentId s' \<longrightarrow> s = s'"
      "\<forall>v \<in> set (Map_values (vehicles this)). \<forall>v' \<in> set (Map_values (vehicles this)).
            Vehicle_plateNumber v = Vehicle_plateNumber v' \<longrightarrow> v = v'"
    by blast+
  note agree = verify_independent_of_row_order [OF rows unique, of studentId plateNumber]
  show "Verification_isValid (DrizzleStorage_verifyStudentAndVehicle db studentId plateNumber)
    = Verification_isValid (MemoryStorage_verifyStudentAndVehicle this studentId plateNumber)"
    by (rule agree(1))
  show "Verification_reason (DrizzleStorage_verifyStudentAndVehicle db studentId plateNumber)
      = Verification_reason (MemoryStorage_verifyStudentAndVehicle this studentId plateNumber)"
    by (rule agree(2))
  show "Verification_vehicle (DrizzleStorage_verifyStudentAndVehicle db studentId plateNumber)
      = Verification_vehicle (MemoryStorage_verifyStudentAndVehicle this studentId plateNumber)"
    by (rule agree(3))
  show "map_option Student.truncate
        (Verification_student (DrizzleStorage_verifyStudentAndVehicle db studentId plateNumber))
      = map_option Student.truncate
        (Verification_student (MemoryStorage_verifyStudentAndVehicle this studentId plateNumber))"
    by (rule agree(4))
qed

theorem storage_implementations_agree_witness:
  "DrizzleStorage_verifyStudentAndVehicle scenario_db ''S100'' ''ABC123''
   = MemoryStorage_verifyStudentAndVehicle scenario_store ''S100'' ''ABC123''
   \<and> Verification_isValid (MemoryStorage_verifyStudentAndVehicle scenario_store ''S100'' ''ABC123'')
   \<and> Verification_isValid (DrizzleStorage_verifyStudentAndVehicle reversed_db ''S100'' ''ABC123'')
   \<and> Verification_reason (DrizzleStorage_verifyStudentAndVehicle reversed_db ''S100'' ''XYZ777'')
     = Some ''Vehicle does not belong to this student''"
proof -
  have same_order: "students_table scenario_db = Map_values (students scenario_store)
      \<and> vehicles_table scenario_db = Map_values (vehicles scenario_store)"
    by (simp add: scenario_db_def scenario_store_def Map_values_def)
  have same_rows: "set (students_table reversed_db) = set (Map_values (students two_students_store))
      \<and> set (vehicles_table reversed_db) = set (Map_values (vehicles two_students_store))
      \<and> (\<forall>s \<in> set (Map_values (students two_students_store)).
          \<forall>s' \<in> set (Map_values (students two_students_store)).
            Student_studentId s = Student_studentId s' \<longrightarrow> s = s')
      \<and> (\<forall>v \<in> set (Map_values (vehicles two_students_store)).
          \<forall>v' \<in> set (Map_values (vehicles two_students_store)).
            Vehicle_plateNumber v = Vehicle_plateNumber v' \<longrightarrow> v = v')"
    by (auto simp: scenario_defs Map_values_def)
  have valid: "Verification_isValid
                 (MemoryStorage_verifyStudentAndVehicle scenario_store ''S100'' ''ABC123'')"
    by (simp add: scenario_defs verify_defs)
  have memory: "Verification_isValid
                 (MemoryStorage_verifyStudentAndVehicle two_students_store ''S100'' ''ABC123'')"
      "Verification_reason
         (MemoryStorage_verifyStudentAndVehicle two_students_store ''S100'' ''XYZ777'')
       = Some ''Vehicle does not belong to this student''"
    by (simp_all add: scenario_defs verify_defs)
  from storage_implementations_agree
         [of scenario_db scenario_store "''S100''" "''ABC123''", THEN conjunct1, rule_format,
          OF same_order]
    storage_implementations_agree
         [of reversed_db two_students_store "''S100''" "''ABC123''", THEN conjunct2, rule_format,
          OF same_rows]
    storage_implementations_agree
         [of reversed_db two_students_store "''S100''" "''XYZ777''", THEN conjunct2, rule_format,
          OF same_rows]
    valid memory
  show ?thesis by simp
qed

text \<open>
  C3. A verify request in which the student identifier, the plate or the gate location
  is missing or empty is answered with status 400, whatever the store is: the handler
  calls no storage method (no lookup, no access log, no alert), calls \<open>broadcast\<close> not
  once, and leaves the state of the store as it found it.
\<close>

theorem missing_field_is_rejected:
  assumes "falsy (body_studentId body) \<or> falsy (body_plateNumber body)
             \<or> falsy (body_gateLocation body)"
  shows "verify_access storage st body = (Status 400 ''Missing required fields'', st, [])"
  using assms by (simp add: verify_access_def)

theorem missing_field_is_rejected_witness:
  "falsy (body_gateLocation (scenario_body\<lparr> body_gateLocation := Some [] \<rparr>))
   \<and> verify_access MemoryStorage_IStorage scenario_state
         (scenario_body\<lparr> body_gateLocation := Some [] \<rparr>)
       = (Status 400 ''Missing required fields'', scenario_state, [])"
proof -
  have missing: "falsy (body_studentId (scenario_body\<lparr> body_gateLocation := Some [] \<rparr>))
      \<or> falsy (body_plateNumber (scenario_body\<lparr> body_gateLocation := Some [] \<rparr>))
      \<or> falsy (body_gateLocation (scenario_body\<lparr> body_gateLocation := Some [] \<rparr>))"
    by (simp add: falsy_def)
  from missing_field_is_rejected [OF missing] show ?thesis
    by (simp add: falsy_def)
qed

text \<open>
  C6. \<open>broadcast\<close> serializes the message once, before the loop, and sends that one
  string to the clients whose \<open>readyState\<close> is \<open>OPEN\<close>, in the order of the set, and to
  no other client. A client that is not open is passed over without a call of its
  \<open>send\<close>, so whatever that \<open>send\<close> would do, \<open>broadcast\<close> returns normally, provided
  that \<open>send\<close> does not throw on an open socket.
\<close>

theorem broadcast_reaches_open_clients:
  assumes "\<forall>client \<in> set connectedClients.
             readyState client = OPEN \<longrightarrow> \<not> send_throws client (JSON_stringify message)"
  shows "broadcast JSON_stringify send_throws connectedClients message =
           (Stringify message
              # map (\<lambda>client. Send client (JSON_stringify message))
                  (filter (\<lambda>client. readyState client = OPEN) connectedClients),
            Returned)"
  using forEach_client_open [where send_throws = send_throws
      and connectedClients = connectedClients and messageStr = "JSON_stringify message"] assms
  by (simp add: broadcast_def Let_def)

theorem broadcast_reaches_open_clients_witness:
  "broadcast type_only throws_unless_open scenario_clients scenario_message =
     ([Stringify scenario_message,
       Send \<lparr> socket_id = 1, readyState = OPEN \<rparr> ''new_alert'',
       Send \<lparr> socket_id = 3, readyState = OPEN \<rparr> ''new_alert''], Returned)"
proof -
  have open_ok: "\<forall>client \<in> set scenario_clients.
      readyState client = OPEN \<longrightarrow> \<not> throws_unless_open client (type_only scenario_message)"
    by (simp add: scenario_clients_def throws_unless_open_def)
  from broadcast_reaches_open_clients [where JSON_stringify = type_only
      and send_throws = throws_unless_open and connectedClients = scenario_clients
      and message = scenario_message] open_ok
  show ?thesis
    by (simp add: scenario_clients_def type_only_def scenario_message_def)
qed

text \<open>
  C9. \<open>getDashboardStats\<close> reports two active gates whatever the store holds, in both
  implementations; and when every stored log is either granted or denied, the total of
  the day is the number of granted logs of the day plus the number of denied ones.
\<close>

theorem dashboard_stats_totals:
  "activeGates (MemoryStorage_getDashboardStats this now) = 2
   \<and> activeGates (DrizzleStorage_getDashboardStats db now) = 2
   \<and> ((\<forall>l \<in> set (Map_values (accessLogs this)).
          AccessLog_accessStatus l = ''granted'' \<or> AccessLog_accessStatus l = ''denied'') \<longrightarrow>
        totalAccess (MemoryStorage_getDashboardStats this now) =
          granted (MemoryStorage_getDashboardStats this now)
          + denied (MemoryStorage_getDashboardStats this now))
   \<and> ((\<forall>l \<in> set (accessLogs_table db).
          AccessLog_accessStatus l = ''granted'' \<or> AccessLog_accessStatus l = ''denied'') \<longrightarrow>
        totalAccess (DrizzleStorage_getDashboardStats db now) =
          granted (DrizzleStorage_getDashboardStats db now)
          + denied (DrizzleStorage_getDashboardStats db now))"
proof (intro conjI impI)
  show "activeGates (MemoryStorage_getDashboardStats this now) = 2"
    by (simp add: MemoryStorage_getDashboardStats_def Let_def)
  show "activeGates (DrizzleStorage_getDashboardStats db now) = 2"
    by (simp add: DrizzleStorage_getDashboardStats_def Let_def)
next
  assume two: "\<forall>l \<in> set (Map_values (accessLogs this)).
            AccessLog_accessStatus l = ''granted'' \<or> AccessLog_accessStatus l = ''denied''"
  show "totalAccess (MemoryStorage_getDashboardStats this now) =
          granted (MemoryStorage_getDashboardStats this now)
          + denied (MemoryStorage_getDashboardStats this now)"
    unfolding MemoryStorage_getDashboardStats_def Let_def DashboardStats.select_convs
    by (rule status_split [OF two])
next
  assume two: "\<forall>l \<in> set (accessLogs_table db).
            AccessLog_accessStatus l = ''granted'' \<or> AccessLog_accessStatus l = ''denied''"
  show "totalAccess (DrizzleStorage_getDashboardStats db now) =
          granted (DrizzleStorage_getDashboardStats db now)
          + denied (DrizzleStorage_getDashboardStats db now)"
    unfolding DrizzleStorage_getDashboardStats_def Let_def DashboardStats.select_convs
    by (rule status_split [OF two])
qed

theorem dashboard_stats_totals_witness:
  "totalAccess (MemoryStorage_getDashboardStats stats_store 129600000) = 2
   \<and> granted (MemoryStorage_getDashboardStats stats_store 129600000)
       + denied (MemoryStorage_getDashboardStats stats_store 129600000) = 2
   \<and> totalAccess (DrizzleStorage_getDashboardStats stats_db 129600000) = 2
   \<and> granted (DrizzleStorage_getDashboardStats stats_db 129600000)
       + denied (DrizzleStorage_getDashboardStats stats_db 129600000) = 2
   \<and> activeGates (MemoryStorage_getDashboardStats stats_store 129600000) = 2"
proof -
  have m: "\<forall>l \<in> set (Map_values (accessLogs stats_store)).
      AccessLog_accessStatus l = ''granted'' \<or> AccessLog_accessStatus l = ''denied''"
    by (simp add: scenario_defs Map_values_def)
  have d: "\<forall>l \<in> set (accessLogs_table stats_db).
      AccessLog_accessStatus l = ''granted'' \<or> AccessLog_accessStatus l = ''denied''"
    by (simp add: scenario_defs)
  have tm: "totalAccess (MemoryStorage_getDashboardStats stats_store 129600000) = 2"
    by (simp add: scenario_defs Map_values_def MemoryStorage_getDashboardStats_def
        startOfDay_def dayAfter_def day_ms_def getTime_def Let_def)
  have td: "totalAccess (DrizzleStorage_getDashboardStats stats_db 129600000) = 2"
    by (simp add: scenario_defs DrizzleStorage_getDashboardStats_def
        startOfDay_def dayAfter_def day_ms_def Let_def)
  from dashboard_stats_totals [of stats_store 129600000 stats_db] m d tm td show ?thesis
    by simp
qed

text \<open>
  C1. In both storage implementations the verdict of \<open>verifyStudentAndVehicle\<close> is valid
  exactly when a student record matches the token, a vehicle record matches the plate,
  the vehicle's \<open>studentId\<close> is the \<open>id\<close> of the resolved student, and both \<open>isActive\<close>
  flags are true. Otherwise the verdict is invalid and the reason is that of the first
  check that fails, in this order: no student, no vehicle, wrong owner, inactive. A valid
  verdict has no reason.
\<close>

theorem verdict_by_first_failing_check:
  "first_failing_check (Map_values (students this)) (Map_values (vehicles this))
     studentId plateNumber (MemoryStorage_verifyStudentAndVehicle this studentId plateNumber)
   \<and> first_failing_check (students_table db) (vehicles_table db)
     studentId plateNumber (DrizzleStorage_verifyStudentAndVehicle db studentId plateNumber)"
  using MemoryStorage_first_failing_check [of this studentId plateNumber]
    DrizzleStorage_first_failing_check [of db studentId plateNumber]
  by (rule conjI)

theorem verdict_by_first_failing_check_witness:
  "Verification_isValid (MemoryStorage_verifyStudentAndVehicle scenario_store ''S100'' ''ABC123'')
   \<and> Verification_reason
        (MemoryStorage_verifyStudentAndVehicle scenario_store ''S100'' ''ABC123'') = None
   \<and> Verification_isValid (DrizzleStorage_verifyStudentAndVehicle scenario_db ''S100'' ''ABC123'')
   \<and> Verification_reason
        (MemoryStorage_verifyStudentAndVehicle overlap_store ''S100'' ''XYZ999'')
        = Some ''Vehicle not registered''
   \<and> Verification_reason
        (MemoryStorage_verifyStudentAndVehicle overlap_store ''S100'' ''ABC123'')
        = Some ''Vehicle does not belong to this student''
   \<and> Verification_reason
        (MemoryStorage_verifyStudentAndVehicle overlap_store ''S404'' ''ABC123'')
        = Some ''Student ID not found''"
  using verdict_by_first_failing_check [of scenario_store "''S100''" "''ABC123''" scenario_db]
    verdict_by_first_failing_check [of overlap_store "''S100''" "''XYZ999''" scenario_db]
    verdict_by_first_failing_check [of overlap_store "''S100''" "''ABC123''" scenario_db]
    verdict_by_first_failing_check [of overlap_store "''S404''" "''ABC123''" scenario_db]
  by (simp add: scenario_defs Map_values_def)

text \<open>
  C5. The reason of a denied verification, returned and written to the access log, is the
  string of the first check that fails. The strings are those of the code, which names
  the identity a student: \<open>Student ID not found\<close> when no student record matches the
  token, \<open>Vehicle not registered\<close> when no vehicle matches the plate,
  \<open>Vehicle does not belong to this student\<close> on an ownership mismatch, and
  \<open>Student or vehicle is inactive\<close> when an active flag is not true. With no student
  record in the store the reason is \<open>Student ID not found\<close>, not \<open>Identity not found\<close>.
\<close>

theorem reason_strings_counterexample:
  "Verification_reason (MemoryStorage_verifyStudentAndVehicle empty_store ''S404'' ''ABC123'')
     = Some ''Student ID not found''
   \<and> Verification_reason (MemoryStorage_verifyStudentAndVehicle empty_store ''S404'' ''ABC123'')
     \<noteq> Some ''Identity not found''"
  by (simp add: scenario_defs verify_defs)

theorem denial_reason_strings:
  "Verification_reason (MemoryStorage_verifyStudentAndVehicle this studentId plateNumber) =
     reported_reason
       (find (\<lambda>s. Student_studentId s = studentId) (Map_values (students this)))
       (find (\<lambda>v. Vehicle_plateNumber v = plateNumber) (Map_values (vehicles this)))
   \<and> Verification_reason (DrizzleStorage_verifyStudentAndVehicle db studentId plateNumber) =
     reported_reason
       (find (\<lambda>s. Student_studentId s = studentId) (students_table db))
       (find (\<lambda>v. Vehicle_plateNumber v = plateNumber) (vehicles_table db))
   \<and> InsertAccessLog_reason (verify_access_logInput r plateNumber gateLocation)
       = Verification_reason r
   \<and> AccessLog_reason
        (fst (MemoryStorage_createAccessLog st (verify_access_logInput r plateNumber gateLocation)))
       = Verification_reason r"
  using MemoryStorage_reported_reason [of this studentId plateNumber]
    DrizzleStorage_reported_reason [of db studentId plateNumber]
  by (simp add: verify_access_logInput_def createAccessLog_entry)

theorem denial_reason_strings_witness:
  "Verification_reason (MemoryStorage_verifyStudentAndVehicle overlap_store ''S100'' ''ABC123'')
     = Some ''Vehicle does not belong to this student''
   \<and> Verification_reason (MemoryStorage_verifyStudentAndVehicle overlap_store ''S100'' ''XYZ999'')
     = Some ''Vehicle not registered''
   \<and> Verification_reason (DrizzleStorage_verifyStudentAndVehicle scenario_db ''S404'' ''ABC123'')
     = Some ''Student ID not found''
   \<and> Verification_reason (DrizzleStorage_verifyStudentAndVehicle scenario_db ''S100'' ''ABC123'')
     = None"
  using denial_reason_strings [of overlap_store "''S100''" "''ABC123''" scenario_db]
    denial_reason_strings [of overlap_store "''S100''" "''XYZ999''" scenario_db]
    denial_reason_strings [of overlap_store "''S404''" "''ABC123''" scenario_db]
  by (simp add: scenario_defs Map_values_def)

text \<open>
  C10. \<open>markAlertAsRead\<close> of the in-memory store leaves the students, the vehicles and
  the access logs as they are, keeps the keys of the alerts and their order, leaves the
  alert under every other key as it is, and sets \<open>isRead\<close> of the alert under the given
  key, changing no other field of it. When no alert has the key the store is unchanged.
  The handler of \<open>PUT /api/alerts/:id/read\<close> answers with success in both cases.
\<close>

theorem markAlertAsRead_frame:
  "students (MemoryStorage_markAlertAsRead this alertId) = students this
   \<and> vehicles (MemoryStorage_markAlertAsRead this alertId) = vehicles this
   \<and> accessLogs (MemoryStorage_markAlertAsRead this alertId) = accessLogs this
   \<and> Map_keys (alerts (MemoryStorage_markAlertAsRead this alertId)) = Map_keys (alerts this)
   \<and> (\<forall>k. k \<noteq> alertId \<longrightarrow>
          Map_get (alerts (MemoryStorage_markAlertAsRead this alertId)) k
          = Map_get (alerts this) k)
   \<and> (\<forall>i < length (alerts this).
          fst (alerts (MemoryStorage_markAlertAsRead this alertId) ! i) = fst (alerts this ! i)
          \<and> (fst (alerts this ! i) \<noteq> alertId \<longrightarrow>
               snd (alerts (MemoryStorage_markAlertAsRead this alertId) ! i)
               = snd (alerts this ! i)))
   \<and> (\<forall>a. Map_get (alerts this) alertId = Some a \<longrightarrow>
          Map_get (alerts (MemoryStorage_markAlertAsRead this alertId)) alertId
          = Some (a\<lparr> Alert_isRead := Some True \<rparr>))
   \<and> (Map_get (alerts this) alertId = None \<longrightarrow>
          MemoryStorage_markAlertAsRead this alertId = this)
   \<and> mark_alert_read MemoryStorage_IStorage st alertId
       = (Json (SuccessReply True),
          st\<lparr> store := MemoryStorage_markAlertAsRead (store st) alertId \<rparr>,
          [Call_markAlertAsRead alertId])
   \<and> (Map_get (alerts (store st)) alertId = None \<longrightarrow>
          mark_alert_read MemoryStorage_IStorage st alertId
          = (Json (SuccessReply True), st, [Call_markAlertAsRead alertId]))"
proof (intro conjI allI impI)
  show "students (MemoryStorage_markAlertAsRead this alertId) = students this"
    and "vehicles (MemoryStorage_markAlertAsRead this alertId) = vehicles this"
    and "accessLogs (MemoryStorage_markAlertAsRead this alertId) = accessLogs this"
    by (rule markAlertAsRead_other_maps)+
  show "Map_keys (alerts (MemoryStorage_markAlertAsRead this alertId)) = Map_keys (alerts this)"
    by (rule markAlertAsRead_keys)
next
  fix k assume "k \<noteq> alertId"
  then show "Map_get (alerts (MemoryStorage_markAlertAsRead this alertId)) k
             = Map_get (alerts this) k"
    by (simp add: markAlertAsRead_lookup)
next
  fix i assume "i < length (alerts this)"
  from markAlertAsRead_positions [OF this, of alertId]
  show "fst (alerts (MemoryStorage_markAlertAsRead this alertId) ! i) = fst (alerts this ! i)"
    by simp
next
  fix i assume "i < length (alerts this)" and "fst (alerts this ! i) \<noteq> alertId"
  with markAlertAsRead_positions [of i this alertId]
  show "snd (alerts (MemoryStorage_markAlertAsRead this alertId) ! i) = snd (alerts this ! i)"
    by simp
next
  fix a assume "Map_get (alerts this) alertId = Some a"
  then show "Map_get (alerts (MemoryStorage_markAlertAsRead this alertId)) alertId
             = Some (a\<lparr> Alert_isRead := Some True \<rparr>)"
    by (simp add: markAlertAsRead_lookup)
next
  assume "Map_get (alerts this) alertId = None"
  then show "MemoryStorage_markAlertAsRead this alertId = this"
    by (rule markAlertAsRead_absent)
next
  show "mark_alert_read MemoryStorage_IStorage st alertId
       = (Json (SuccessReply True),
          st\<lparr> store := MemoryStorage_markAlertAsRead (store st) alertId \<rparr>,
          [Call_markAlertAsRead alertId])"
    by (simp add: mark_alert_read_def)
next
  assume "Map_get (alerts (store st)) alertId = None"
  then show "mark_alert_read MemoryStorage_IStorage st alertId
          = (Json (SuccessReply True), st, [Call_markAlertAsRead alertId])"
    by (simp add: mark_alert_read_def markAlertAsRead_absent)
qed

theorem markAlertAsRead_frame_witness:
  "Map_get (alerts (MemoryStorage_markAlertAsRead alerts_store ''a1'')) ''a1''
     = Some (first_alert\<lparr> Alert_isRead := Some True \<rparr>)
   \<and> Map_get (alerts (MemoryStorage_markAlertAsRead alerts_store ''a1'')) ''a2''
     = Some second_alert
   \<and> MemoryStorage_markAlertAsRead alerts_store ''a9'' = alerts_store
   \<and> mark_alert_read MemoryStorage_IStorage \<lparr> store = alerts_store, world = scenario_world \<rparr> ''a9''
     = (Json (SuccessReply True), \<lparr> store = alerts_store, world = scenario_world \<rparr>,
        [Call_markAlertAsRead ''a9''])"
  using markAlertAsRead_frame [of alerts_store "''a1''" "\<lparr> store = alerts_store, world = scenario_world \<rparr>"]
    markAlertAsRead_frame [of alerts_store "''a9''" "\<lparr> store = alerts_store, world = scenario_world \<rparr>"]
  by (simp add: alerts_store_def Map_get_def)

text \<open>
  C2. An alert is created exactly on denial. Whatever the storage implementation, a verify
  request that is answered without a failure has called \<open>createAlert\<close> once when the
  verdict it got from the store is invalid and not at all when it is valid; a manual grant
  never calls \<open>createAlert\<close>; a manual denial that is answered without a failure has
  called it once, whether or not a student or a vehicle was found. On the in-memory store
  this is one \<open>Map.set\<close> of the alerts on denial, and the alerts unchanged on a grant.
\<close>

theorem alert_iff_denial:
  fixes storage :: "'s IStorage" and mst :: MemoryState
  shows
  "(\<forall>rep st' calls.
      verify_access storage st body = (Json rep, st', calls) \<longrightarrow>
      (\<exists>studentId plateNumber r st1.
          body_studentId body = Some studentId \<and> body_plateNumber body = Some plateNumber
        \<and> verifyStudentAndVehicle storage st studentId plateNumber = (Inr r, st1)
        \<and> length (createAlert_calls calls) = (if Verification_isValid r then 0 else 1)))
   \<and> (\<forall>resp st' calls.
      grant_access storage st body = (resp, st', calls) \<longrightarrow> createAlert_calls calls = [])
   \<and> (\<forall>rep st' calls.
      deny_access storage st body = (Json rep, st', calls) \<longrightarrow>
      length (createAlert_calls calls) = 1)
   \<and> (\<forall>rep mst' calls.
      verify_access MemoryStorage_IStorage mst body = (Json rep, mst', calls) \<longrightarrow>
      (\<exists>studentId plateNumber.
          body_studentId body = Some studentId \<and> body_plateNumber body = Some plateNumber
        \<and> (if Verification_isValid
                 (MemoryStorage_verifyStudentAndVehicle (store mst) studentId plateNumber)
            then alerts (store mst') = alerts (store mst)
            else \<exists>alert. alerts (store mst')
                          = Map_set (alerts (store mst)) (Alert_id alert) alert)))
   \<and> (\<forall>resp mst' calls.
      grant_access MemoryStorage_IStorage mst body = (resp, mst', calls) \<longrightarrow>
      alerts (store mst') = alerts (store mst))
   \<and> (\<forall>resp mst' calls.
      deny_access MemoryStorage_IStorage mst body = (resp, mst', calls) \<longrightarrow>
      (\<exists>details alert.
          resp = Json (DenyAccessReply True details alert)
        \<and> alerts (store mst') = Map_set (alerts (store mst)) (Alert_id alert) alert))"
proof (intro conjI allI impI)
  fix rep st' calls
  assume run: "verify_access storage st body = (Json rep, st', calls)"
  from verify_access_Json [OF run]
  show "\<exists>studentId plateNumber r st1.
          body_studentId body = Some studentId \<and> body_plateNumber body = Some plateNumber
        \<and> verifyStudentAndVehicle storage st studentId plateNumber = (Inr r, st1)
        \<and> length (createAlert_calls calls) = (if Verification_isValid r then 0 else 1)"
    by (elim exE conjE) (rule exI conjI | assumption | auto split: if_splits)+
next
  fix resp st' calls
  assume "grant_access storage st body = (resp, st', calls)"
  then show "createAlert_calls calls = []"
    by (rule grant_access_no_alert)
next
  fix rep st' calls
  assume "deny_access storage st body = (Json rep, st', calls)"
  from deny_access_one_alert [OF this] show "length (createAlert_calls calls) = 1"
    by simp
next
  fix rep mst' calls
  assume "verify_access MemoryStorage_IStorage mst body = (Json rep, mst', calls)"
  then show "\<exists>studentId plateNumber.
          body_studentId body = Some studentId \<and> body_plateNumber body = Some plateNumber
        \<and> (if Verification_isValid
                 (MemoryStorage_verifyStudentAndVehicle (store mst) studentId plateNumber)
            then alerts (store mst') = alerts (store mst)
            else \<exists>alert. alerts (store mst')
                          = Map_set (alerts (store mst)) (Alert_id alert) alert)"
    by (rule verify_access_memory_alerts)
next
  fix resp mst' calls
  assume "grant_access MemoryStorage_IStorage mst body = (resp, mst', calls)"
  then show "alerts (store mst') = alerts (store mst)"
    by (rule grant_access_memory_alerts)
next
  fix resp mst' calls
  assume "deny_access MemoryStorage_IStorage mst body = (resp, mst', calls)"
  then show "\<exists>details alert.
          resp = Json (DenyAccessReply True details alert)
        \<and> alerts (store mst') = Map_set (alerts (store mst)) (Alert_id alert) alert"
    by (rule deny_access_memory_alerts)
qed


theorem alert_iff_denial_witness:
  "(\<exists>rep st' calls.
      verify_access MemoryStorage_IStorage scenario_state unregistered_body = (Json rep, st', calls)
    \<and> length (createAlert_calls calls) = 1
    \<and> Map_keys (alerts (store st')) = [''idx''])
   \<and> (\<exists>rep st' calls.
      verify_access MemoryStorage_IStorage scenario_state scenario_body = (Json rep, st', calls)
    \<and> createAlert_calls calls = []
    \<and> alerts (store st') = [])
   \<and> (\<exists>rep st' calls.
      deny_access MemoryStorage_IStorage scenario_state manual_deny_body = (Json rep, st', calls)
    \<and> length (createAlert_calls calls) = 1
    \<and> Map_keys (alerts (store st')) = [''idx''])
   \<and> (\<exists>rep st' calls.
      grant_access MemoryStorage_IStorage scenario_state scenario_body = (Json rep, st', calls)
    \<and> createAlert_calls calls = []
    \<and> alerts (store st') = [])"
proof -
  have "\<exists>rep st' calls.
      verify_access MemoryStorage_IStorage scenario_state unregistered_body = (Json rep, st', calls)
    \<and> Map_keys (alerts (store st')) = [''idx'']"
    by (simp add: handler_defs scenario_defs verify_defs Map_keys_def)
  then obtain rep1 st1 calls1
    where run1: "verify_access MemoryStorage_IStorage scenario_state unregistered_body
                 = (Json rep1, st1, calls1)"
      and keys1: "Map_keys (alerts (store st1)) = [''idx'']"
    by blast
  from alert_iff_denial [where storage = MemoryStorage_IStorage and st = scenario_state
      and body = unregistered_body and mst = scenario_state,
      THEN conjunct1, rule_format, OF run1]
  obtain studentId plateNumber r st0
    where "body_studentId unregistered_body = Some studentId"
      and "body_plateNumber unregistered_body = Some plateNumber"
      and "verifyStudentAndVehicle MemoryStorage_IStorage scenario_state studentId plateNumber
           = (Inr r, st0)"
      and len1: "length (createAlert_calls calls1) = (if Verification_isValid r then 0 else 1)"
    by blast
  then have "r = MemoryStorage_verifyStudentAndVehicle scenario_store ''S100'' ''XYZ999''"
    by (simp add: unregistered_body_def scenario_state_def)
  then have "\<not> Verification_isValid r"
    by (simp add: scenario_defs verify_defs)
  with len1 have one1: "length (createAlert_calls calls1) = 1" by simp

  have "\<exists>rep st' calls.
      verify_access MemoryStorage_IStorage scenario_state scenario_body = (Json rep, st', calls)
    \<and> alerts (store st') = []"
    by (simp add: handler_defs scenario_defs verify_defs)
  then obtain rep2 st2 calls2
    where run2: "verify_access MemoryStorage_IStorage scenario_state scenario_body
                 = (Json rep2, st2, calls2)"
      and none2: "alerts (store st2) = []"
    by blast
  from alert_iff_denial [where storage = MemoryStorage_IStorage and st = scenario_state
      and body = scenario_body and mst = scenario_state,
      THEN conjunct1, rule_format, OF run2]
  obtain studentId' plateNumber' r' st0'
    where "body_studentId scenario_body = Some studentId'"
      and "body_plateNumber scenario_body = Some plateNumber'"
      and "verifyStudentAndVehicle MemoryStorage_IStorage scenario_state studentId' plateNumber'
           = (Inr r', st0')"
      and len2: "length (createAlert_calls calls2) = (if Verification_isValid r' then 0 else 1)"
    by blast
  then have "r' = MemoryStorage_verifyStudentAndVehicle scenario_store ''S100'' ''ABC123''"
    by (simp add: scenario_body_def scenario_state_def)
  then have "Verification_isValid r'"
    by (simp add: scenario_defs verify_defs)
  with len2 have zero2: "createAlert_calls calls2 = []" by simp

  have "\<exists>rep st' calls.
      deny_access MemoryStorage_IStorage scenario_state manual_deny_body = (Json rep, st', calls)
    \<and> Map_keys (alerts (store st')) = [''idx'']"
    by (simp add: handler_defs scenario_defs verify_defs Map_keys_def)
  then obtain rep3 st3 calls3
    where run3: "deny_access MemoryStorage_IStorage scenario_state manual_deny_body
                 = (Json rep3, st3, calls3)"
      and keys3: "Map_keys (alerts (store st3)) = [''idx'']"
    by blast
  from alert_iff_denial [where storage = MemoryStorage_IStorage and st = scenario_state
      and body = manual_deny_body and mst = scenario_state,
      THEN conjunct2, THEN conjunct2, THEN conjunct1, rule_format, OF run3]
  have one3: "length (createAlert_calls calls3) = 1" .

  have "\<exists>rep st' calls.
      grant_access MemoryStorage_IStorage scenario_state scenario_body = (Json rep, st', calls)
    \<and> alerts (store st') = []"
    by (simp add: handler_defs scenario_defs verify_defs)
  then obtain rep4 st4 calls4
    where run4: "grant_access MemoryStorage_IStorage scenario_state scenario_body
                 = (Json rep4, st4, calls4)"
      and none4: "alerts (store st4) = []"
    by blast
  from alert_iff_denial [where storage = MemoryStorage_IStorage and st = scenario_state
      and body = scenario_body and mst = scenario_state,
      THEN conjunct2, THEN conjunct1, rule_format, OF run4]
  have zero4: "createAlert_calls calls4 = []" .

  from run1 keys1 one1 run2 none2 zero2 run3 keys3 one3 run4 none4 zero4
  show ?thesis by blast
qed

text \<open>
  C4. A verify request that is answered without a failure has called \<open>createAccessLog\<close>
  once, whatever the storage implementation, with an entry whose status is \<open>granted\<close>
  exactly when the verdict is valid and \<open>denied\<close> otherwise, whose plate is the plate
  token of the request (whether or not a vehicle matched), whose gate location is that of
  the request, whose reason is the reason of the verdict, and whose metadata is
  \<open>{confidence: 100}\<close>. On the in-memory store the entry is written by one \<open>Map.set\<close>
  under its generated id, with these fields, and with no reason when the verdict is valid.
\<close>

theorem verify_access_writes_one_log:
  fixes storage :: "'s IStorage" and mst :: MemoryState
  shows
  "(\<forall>rep st' calls.
      verify_access storage st body = (Json rep, st', calls) \<longrightarrow>
      (\<exists>studentId plateNumber gateLocation r st1 logInput entry st2.
          body_studentId body = Some studentId \<and> body_plateNumber body = Some plateNumber
        \<and> body_gateLocation body = Some gateLocation
        \<and> verifyStudentAndVehicle storage st studentId plateNumber = (Inr r, st1)
        \<and> createAccessLog_calls calls = [logInput]
        \<and> createAccessLog storage st1 logInput = (Inr entry, st2)
        \<and> (InsertAccessLog_accessStatus logInput = ''granted'' \<longleftrightarrow> Verification_isValid r)
        \<and> (InsertAccessLog_accessStatus logInput = ''denied'' \<longleftrightarrow> \<not> Verification_isValid r)
        \<and> InsertAccessLog_plateNumber logInput = Some plateNumber
        \<and> InsertAccessLog_gateLocation logInput = Some gateLocation
        \<and> InsertAccessLog_reason logInput = Verification_reason r
        \<and> InsertAccessLog_metadata logInput = Some (JObj [(''confidence'', JNum 100)])))
   \<and> (\<forall>rep mst' calls.
      verify_access MemoryStorage_IStorage mst body = (Json rep, mst', calls) \<longrightarrow>
      (\<exists>studentId plateNumber gateLocation entry.
          body_studentId body = Some studentId \<and> body_plateNumber body = Some plateNumber
        \<and> body_gateLocation body = Some gateLocation
        \<and> accessLogs (store mst')
            = Map_set (accessLogs (store mst)) (AccessLog_id entry) entry
        \<and> (\<exists>v. rep = VerifyAccessReply v \<and> AccessLog_id (accessLog v) = AccessLog_id entry)
        \<and> (AccessLog_accessStatus entry = ''granted'' \<longleftrightarrow>
             Verification_isValid
               (MemoryStorage_verifyStudentAndVehicle (store mst) studentId plateNumber))
        \<and> (AccessLog_accessStatus entry = ''denied'' \<longleftrightarrow>
             \<not> Verification_isValid
                 (MemoryStorage_verifyStudentAndVehicle (store mst) studentId plateNumber))
        \<and> AccessLog_plateNumber entry = Some plateNumber
        \<and> AccessLog_gateLocation entry = Some gateLocation
        \<and> AccessLog_reason entry
            = Verification_reason
                (MemoryStorage_verifyStudentAndVehicle (store mst) studentId plateNumber)
        \<and> (Verification_isValid
               (MemoryStorage_verifyStudentAndVehicle (store mst) studentId plateNumber)
             \<longrightarrow> AccessLog_reason entry = None)
        \<and> AccessLog_metadata entry = JObj [(''confidence'', JNum 100)]))"
proof (intro conjI allI impI)
  fix rep st' calls
  assume "verify_access storage st body = (Json rep, st', calls)"
  from createAccessLog_calls_of_verify [OF this]
  obtain studentId plateNumber gateLocation r st1 entry st2
    where "body_studentId body = Some studentId" "body_plateNumber body = Some plateNumber"
        "body_gateLocation body = Some gateLocation"
        "verifyStudentAndVehicle storage st studentId plateNumber = (Inr r, st1)"
        "createAccessLog_calls calls = [verify_access_logInput r plateNumber gateLocation]"
        "createAccessLog storage st1 (verify_access_logInput r plateNumber gateLocation)
           = (Inr entry, st2)"
    by blast
  then show "\<exists>studentId plateNumber gateLocation r st1 logInput entry st2.
          body_studentId body = Some studentId \<and> body_plateNumber body = Some plateNumber
        \<and> body_gateLocation body = Some gateLocation
        \<and> verifyStudentAndVehicle storage st studentId plateNumber = (Inr r, st1)
        \<and> createAccessLog_calls calls = [logInput]
        \<and> createAccessLog storage st1 logInput = (Inr entry, st2)
        \<and> (InsertAccessLog_accessStatus logInput = ''granted'' \<longleftrightarrow> Verification_isValid r)
        \<and> (InsertAccessLog_accessStatus logInput = ''denied'' \<longleftrightarrow> \<not> Verification_isValid r)
        \<and> InsertAccessLog_plateNumber logInput = Some plateNumber
        \<and> InsertAccessLog_gateLocation logInput = Some gateLocation
        \<and> InsertAccessLog_reason logInput = Verification_reason r
        \<and> InsertAccessLog_metadata logInput = Some (JObj [(''confidence'', JNum 100)])"
    using verify_access_logInput_fields [of r plateNumber gateLocation]
    by (intro exI [of _ studentId] exI [of _ plateNumber] exI [of _ gateLocation]
        exI [of _ r] exI [of _ st1]
        exI [of _ "verify_access_logInput r plateNumber gateLocation"]
        exI [of _ entry] exI [of _ st2] conjI)
next
  fix rep mst' calls
  assume "verify_access MemoryStorage_IStorage mst body = (Json rep, mst', calls)"
  then show "\<exists>studentId plateNumber gateLocation entry.
          body_studentId body = Some studentId \<and> body_plateNumber body = Some plateNumber
        \<and> body_gateLocation body = Some gateLocation
        \<and> accessLogs (store mst')
            = Map_set (accessLogs (store mst)) (AccessLog_id entry) entry
        \<and> (\<exists>v. rep = VerifyAccessReply v \<and> AccessLog_id (accessLog v) = AccessLog_id entry)
        \<and> (AccessLog_accessStatus entry = ''granted'' \<longleftrightarrow>
             Verification_isValid
               (MemoryStorage_verifyStudentAndVehicle (store mst) studentId plateNumber))
        \<and> (AccessLog_accessStatus entry = ''denied'' \<longleftrightarrow>
             \<not> Verification_isValid
                 (MemoryStorage_verifyStudentAndVehicle (store mst) studentId plateNumber))
        \<and> AccessLog_plateNumber entry = Some plateNumber
        \<and> AccessLog_gateLocation entry = Some gateLocation
        \<and> AccessLog_reason entry
            = Verification_reason
                (MemoryStorage_verifyStudentAndVehicle (store mst) studentId plateNumber)
        \<and> (Verification_isValid
               (MemoryStorage_verifyStudentAndVehicle (store mst) studentId plateNumber)
             \<longrightarrow> AccessLog_reason entry = None)
        \<and> AccessLog_metadata entry = JObj [(''confidence'', JNum 100)]"
    by (rule verify_access_memory_entry)
qed


theorem verify_access_writes_one_log_witness:
  "\<exists>rep st' calls entry.
      verify_access MemoryStorage_IStorage scenario_state unregistered_body = (Json rep, st', calls)
    \<and> length (createAccessLog_calls calls) = 1
    \<and> accessLogs (store st') = [(AccessLog_id entry, entry)]
    \<and> AccessLog_accessStatus entry = ''denied''
    \<and> AccessLog_plateNumber entry = Some ''XYZ999''
    \<and> AccessLog_gateLocation entry = Some ''Gate1''
    \<and> AccessLog_reason entry = Some ''Vehicle not registered''
    \<and> AccessLog_metadata entry = JObj [(''confidence'', JNum 100)]"
proof -
  have "\<exists>rep st' calls.
      verify_access MemoryStorage_IStorage scenario_state unregistered_body = (Json rep, st', calls)"
    by (simp add: handler_defs scenario_defs verify_defs)
  then obtain rep st' calls
    where run: "verify_access MemoryStorage_IStorage scenario_state unregistered_body
                = (Json rep, st', calls)"
    by blast
  note written = verify_access_writes_one_log [where storage = MemoryStorage_IStorage
      and st = scenario_state and body = unregistered_body and mst = scenario_state]
  from written [THEN conjunct1, rule_format, OF run]
  have one: "length (createAccessLog_calls calls) = 1"
    by (elim exE conjE) simp
  from written [THEN conjunct2, rule_format, OF run]
  obtain studentId plateNumber gateLocation entry
    where sid: "body_studentId unregistered_body = Some studentId"
      and plate: "body_plateNumber unregistered_body = Some plateNumber"
      and gate: "body_gateLocation unregistered_body = Some gateLocation"
      and logs: "accessLogs (store st')
                 = Map_set (accessLogs (store scenario_state)) (AccessLog_id entry) entry"
      and denied: "AccessLog_accessStatus entry = ''denied'' \<longleftrightarrow>
             \<not> Verification_isValid
                 (MemoryStorage_verifyStudentAndVehicle (store scenario_state) studentId
                    plateNumber)"
      and fields: "AccessLog_plateNumber entry = Some plateNumber"
          "AccessLog_gateLocation entry = Some gateLocation"
          "AccessLog_reason entry
            = Verification_reason
                (MemoryStorage_verifyStudentAndVehicle (store scenario_state) studentId
                   plateNumber)"
          "AccessLog_metadata entry = JObj [(''confidence'', JNum 100)]"
    by blast
  from sid plate gate
  have tokens: "studentId = ''S100''" "plateNumber = ''XYZ999''" "gateLocation = ''Gate1''"
    by (simp_all add: unregistered_body_def)
  have verdict: "\<not> Verification_isValid
                    (MemoryStorage_verifyStudentAndVehicle (store scenario_state) ''S100'' ''XYZ999'')"
      "Verification_reason
         (MemoryStorage_verifyStudentAndVehicle (store scenario_state) ''S100'' ''XYZ999'')
       = Some ''Vehicle not registered''"
    by (simp_all add: scenario_defs verify_defs)
  from logs have stored: "accessLogs (store st') = [(AccessLog_id entry, entry)]"
    by (simp add: scenario_state_def scenario_store_def)
  from run one stored denied fields tokens verdict show ?thesis
    by (intro exI [of _ rep] exI [of _ st'] exI [of _ calls] exI [of _ entry]) simp
qed





end
